theory Spec2Isabelle
  imports Complex_Main
begin

section \<open>Python errors\<close>

text \<open>
  Every exception the modelled code can raise is a value of this type; a function that
  may raise returns \<open>py_error + 'a\<close> with \<open>Inl\<close> for the exception.
  Python floats are idealised as exact reals throughout.
\<close>

datatype py_error =
  ValueError | KeyError | TypeError | RuntimeError | ZeroDivisionError | OverflowError

definition and_then :: "'e + 'a \<Rightarrow> ('a \<Rightarrow> 'e + 'b) \<Rightarrow> 'e + 'b" where
  "and_then r f = (case r of Inl e \<Rightarrow> Inl e | Inr x \<Rightarrow> f x)"

definition math_log :: "real \<Rightarrow> py_error + real" where
  "math_log x = (if x \<le> 0 then Inl ValueError else Inr (ln x))"

definition math_sqrt :: "real \<Rightarrow> py_error + real" where
  "math_sqrt x = (if x < 0 then Inl ValueError else Inr (sqrt x))"

definition truediv :: "real \<Rightarrow> real \<Rightarrow> py_error + real" where
  "truediv a b = (if b = 0 then Inl ZeroDivisionError else Inr (a / b))"

text \<open>Python's \<open>round(x, n)\<close>: round half to even at \<open>n\<close> decimal places.\<close>

definition round_half_even :: "real \<Rightarrow> int" where
  "round_half_even s =
     (let f = \<lfloor>s\<rfloor>; d = s - of_int f
      in if d < 1 / 2 then f else if 1 / 2 < d then f + 1 else if even f then f else f + 1)"

definition py_round :: "real \<Rightarrow> nat \<Rightarrow> real" where
  "py_round x n = of_int (round_half_even (x * 10 ^ n)) / 10 ^ n"

section \<open>dp\_noise.py\<close>

record DPNoise =
  epsilon :: real
  delta :: real
  sensitivity :: real
  max_grad_norm :: real
  sigma :: real

text \<open>\<open>DPNoise.compute_sigma\<close>, reading the three attributes it uses.\<close>

definition compute_sigma :: "real \<Rightarrow> real \<Rightarrow> real \<Rightarrow> py_error + real" where
  "compute_sigma eps dlt sens =
     and_then (truediv (125 / 100) dlt) (\<lambda>q.
     and_then (math_log q) (\<lambda>l.
     and_then (math_sqrt (2 * l)) (\<lambda>r.
     truediv (sens * r) eps)))"

text \<open>\<open>DPNoise.__init__\<close>.\<close>

definition DPNoise_init :: "real \<Rightarrow> real \<Rightarrow> real \<Rightarrow> real \<Rightarrow> py_error + DPNoise" where
  "DPNoise_init eps dlt sens mgn =
     (if eps \<le> 0 then Inl ValueError
      else if dlt \<le> 0 \<or> dlt \<ge> 1 then Inl ValueError
      else case compute_sigma eps dlt sens of
             Inl e \<Rightarrow> Inl e
           | Inr s \<Rightarrow> Inr \<lparr>epsilon = eps, delta = dlt, sensitivity = sens,
                           max_grad_norm = mgn, sigma = s\<rparr>)"

text \<open>
  \<open>get_privacy_spent\<close> takes any number of rounds and works at the edge of the float
  range, so its values are floats with their special values: a finite float is an exact
  real (no rounding, no underflow), a result beyond the largest double is an infinity,
  as in IEEE arithmetic, and nan propagates. \<open>to_float x\<close> is the float an arithmetic
  operation delivers when its exact result is \<open>x\<close>; the range ends at the largest
  double \<open>max_float\<close> itself (the half-ulp of rounding beyond it is not modelled).
\<close>

datatype pyfloat = Fin real | PInf | NInf | NaN

definition max_float :: real where
  "max_float = (2 ^ 53 - 1) * 2 ^ 971"

definition to_float :: "real \<Rightarrow> pyfloat" where
  "to_float x = (if x > max_float then PInf else if x < - max_float then NInf else Fin x)"

fun float_mul :: "pyfloat \<Rightarrow> pyfloat \<Rightarrow> pyfloat" where
  "float_mul (Fin a) (Fin b) = to_float (a * b)"
| "float_mul (Fin a) PInf = (if a = 0 then NaN else if 0 < a then PInf else NInf)"
| "float_mul (Fin a) NInf = (if a = 0 then NaN else if 0 < a then NInf else PInf)"
| "float_mul PInf (Fin b) = (if b = 0 then NaN else if 0 < b then PInf else NInf)"
| "float_mul NInf (Fin b) = (if b = 0 then NaN else if 0 < b then NInf else PInf)"
| "float_mul PInf PInf = PInf"
| "float_mul PInf NInf = NInf"
| "float_mul NInf PInf = NInf"
| "float_mul NInf NInf = PInf"
| "float_mul NaN y = NaN"
| "float_mul x NaN = NaN"

fun float_add :: "pyfloat \<Rightarrow> pyfloat \<Rightarrow> pyfloat" where
  "float_add (Fin a) (Fin b) = to_float (a + b)"
| "float_add (Fin a) PInf = PInf"
| "float_add (Fin a) NInf = NInf"
| "float_add PInf (Fin b) = PInf"
| "float_add NInf (Fin b) = NInf"
| "float_add PInf PInf = PInf"
| "float_add NInf NInf = NInf"
| "float_add PInf NInf = NaN"
| "float_add NInf PInf = NaN"
| "float_add NaN y = NaN"
| "float_add x NaN = NaN"

fun float_neg :: "pyfloat \<Rightarrow> pyfloat" where
  "float_neg (Fin a) = Fin (- a)"
| "float_neg PInf = NInf"
| "float_neg NInf = PInf"
| "float_neg NaN = NaN"

definition float_sub :: "pyfloat \<Rightarrow> pyfloat \<Rightarrow> pyfloat" where
  "float_sub a b = float_add a (float_neg b)"

text \<open>Python's \<open>a <= b\<close> on floats: false as soon as a nan is involved.\<close>

fun float_le :: "pyfloat \<Rightarrow> pyfloat \<Rightarrow> bool" where
  "float_le (Fin a) (Fin b) = (a \<le> b)"
| "float_le (Fin a) PInf = True"
| "float_le (Fin a) NInf = False"
| "float_le PInf (Fin b) = False"
| "float_le NInf (Fin b) = True"
| "float_le PInf PInf = True"
| "float_le NInf NInf = True"
| "float_le NInf PInf = True"
| "float_le PInf NInf = False"
| "float_le NaN y = False"
| "float_le x NaN = False"

text \<open>
  A Python \<open>int\<close> as operand of a float operation is converted first; the conversion
  raises \<open>OverflowError\<close> for an int beyond the float range.
\<close>

definition int_to_float :: "int \<Rightarrow> py_error + pyfloat" where
  "int_to_float n =
     (if \<bar>real_of_int n\<bar> > max_float then Inl OverflowError else Inr (Fin (real_of_int n)))"

text \<open>\<open>a / b\<close> on finite floats: raises on a zero divisor, overflows silently.\<close>

definition float_truediv :: "real \<Rightarrow> real \<Rightarrow> py_error + pyfloat" where
  "float_truediv a b = (if b = 0 then Inl ZeroDivisionError else Inr (to_float (a / b)))"

fun float_log :: "pyfloat \<Rightarrow> py_error + pyfloat" where
  "float_log (Fin x) = (if x \<le> 0 then Inl ValueError else Inr (Fin (ln x)))"
| "float_log PInf = Inr PInf"
| "float_log NInf = Inl ValueError"
| "float_log NaN = Inr NaN"

fun float_sqrt :: "pyfloat \<Rightarrow> py_error + pyfloat" where
  "float_sqrt (Fin x) = (if x < 0 then Inl ValueError else Inr (Fin (sqrt x)))"
| "float_sqrt PInf = Inr PInf"
| "float_sqrt NInf = Inl ValueError"
| "float_sqrt NaN = Inr NaN"

text \<open>\<open>math.exp\<close> of a finite float: raises \<open>OverflowError\<close> when the result is out of range.\<close>

definition float_exp :: "real \<Rightarrow> py_error + pyfloat" where
  "float_exp x = (if exp x > max_float then Inl OverflowError else Inr (Fin (exp x)))"

text \<open>\<open>round(x, n)\<close>: infinities and nan round to themselves.\<close>

fun float_round :: "pyfloat \<Rightarrow> nat \<Rightarrow> pyfloat" where
  "float_round (Fin x) n = Fin (py_round x n)"
| "float_round PInf n = PInf"
| "float_round NInf n = NInf"
| "float_round NaN n = NaN"

record privacy_spent =
  epsilon_total :: pyfloat
  delta_total :: pyfloat
  spent_num_rounds :: int
  sigma_rounded :: real

text \<open>
  The unrounded advanced-composition bound of \<open>get_privacy_spent\<close>, in the source's
  order of evaluation: \<open>2.0 * T\<close> (which converts \<open>T\<close>), \<open>1.0 / delta_prime\<close>,
  \<open>math.log\<close>, the product, \<open>math.sqrt\<close>, \<open>eps * ...\<close>, then \<open>T * eps\<close>,
  \<open>math.exp(eps) - 1.0\<close>, the product and the sum.
\<close>

definition eps_total_raw :: "real \<Rightarrow> real \<Rightarrow> int \<Rightarrow> py_error + pyfloat" where
  "eps_total_raw eps dlt T =
     and_then (int_to_float T) (\<lambda>Tf.
     and_then (float_truediv 1 dlt) (\<lambda>q.
     and_then (float_log q) (\<lambda>l.
     and_then (float_sqrt (float_mul (float_mul (Fin 2) Tf) l)) (\<lambda>r.
     and_then (float_exp eps) (\<lambda>e.
     Inr (float_add (float_mul (Fin eps) r)
            (float_mul (float_mul Tf (Fin eps)) (float_sub e (Fin 1)))))))))"

definition get_privacy_spent :: "DPNoise \<Rightarrow> int \<Rightarrow> py_error + privacy_spent" where
  "get_privacy_spent D T =
     and_then (eps_total_raw (epsilon D) (delta D) T) (\<lambda>eps_total.
     and_then (int_to_float T) (\<lambda>Tf.
     Inr \<lparr>epsilon_total = float_round eps_total 6,
          delta_total = float_round (float_add (float_mul Tf (Fin (delta D))) (Fin (delta D))) 10,
          spent_num_rounds = T,
          sigma_rounded = py_round (sigma D) 6\<rparr>))"

text \<open>
  The bound as a real formula in \<open>eps\<close>, \<open>L = ln (1 / delta)\<close> and \<open>t = T\<close>, and the
  condition that one of the six float operations on the way to it leaves the float
  range.
\<close>

definition eps_total_formula :: "real \<Rightarrow> real \<Rightarrow> real \<Rightarrow> real" where
  "eps_total_formula e L t = e * sqrt (2 * t * L) + t * e * (exp e - 1)"

definition eps_total_overflows :: "real \<Rightarrow> real \<Rightarrow> real \<Rightarrow> bool" where
  "eps_total_overflows e L t =
     (2 * t > max_float \<or> 2 * t * L > max_float \<or> e * sqrt (2 * t * L) > max_float \<or>
      t * e > max_float \<or> t * e * (exp e - 1) > max_float \<or>
      e * sqrt (2 * t * L) + t * e * (exp e - 1) > max_float)"

section \<open>Tensors and state dicts\<close>

text \<open>
  A tensor is its shape and its elements in row-major order (what \<open>ravel\<close>,
  \<open>flatten\<close> and \<open>tolist\<close> read); a tensor of the source always holds as many
  elements as its shape says (\<open>wf_tensor\<close>). A state dict is a Python dict, which keeps
  insertion order: an association list with distinct keys.
\<close>

record 'a tensor =
  shape :: "nat list"
  data :: "'a list"

definition numel :: "'a tensor \<Rightarrow> nat" where
  "numel t = prod_list (shape t)"

definition wf_tensor :: "'a tensor \<Rightarrow> bool" where
  "wf_tensor t = (length (data t) = prod_list (shape t))"

type_synonym ('k, 'v) dict = "('k \<times> 'v) list"

type_synonym 'a state_dict = "(string, 'a tensor) dict"

definition wf_state_dict :: "'a state_dict \<Rightarrow> bool" where
  "wf_state_dict sd = (distinct (map fst sd) \<and> list_all (\<lambda>kv. wf_tensor (snd kv)) sd)"

definition dict_keys :: "('k, 'v) dict \<Rightarrow> 'k list" where
  "dict_keys d = map fst d"

text \<open>\<open>d[k]\<close>: raises \<open>KeyError\<close> when the key is missing.\<close>

definition dict_get :: "('k, 'v) dict \<Rightarrow> 'k \<Rightarrow> py_error + 'v" where
  "dict_get d k = (case map_of d k of None \<Rightarrow> Inl KeyError | Some v \<Rightarrow> Inr v)"

text \<open>\<open>d[k] = v\<close>: overwrites in place, or appends a new key at the end.\<close>

fun dict_set :: "('k, 'v) dict \<Rightarrow> 'k \<Rightarrow> 'v \<Rightarrow> ('k, 'v) dict" where
  "dict_set [] k v = [(k, v)]"
| "dict_set ((k', v') # kvs) k v =
     (if k' = k then (k, v) # kvs else (k', v') # dict_set kvs k v)"

text \<open>\<open>torch.tensor(arr).reshape(shape)\<close>: raises when the element count differs.\<close>

definition reshape :: "'a list \<Rightarrow> nat list \<Rightarrow> py_error + 'a tensor" where
  "reshape xs shp =
     (if length xs = prod_list shp then Inr \<lparr>shape = shp, data = xs\<rparr> else Inl RuntimeError)"

text \<open>\<open>np.concatenate\<close> of 1-D arrays: raises \<open>ValueError\<close> on an empty list of arrays.\<close>

definition np_concatenate :: "'a list list \<Rightarrow> py_error + 'a list" where
  "np_concatenate parts = (if parts = [] then Inl ValueError else Inr (concat parts))"

section \<open>geometric\_median.py: flatten and unflatten\<close>

fun flatten_parts :: "'a state_dict \<Rightarrow> string list \<Rightarrow> py_error + 'a list list" where
  "flatten_parts sd [] = Inr []"
| "flatten_parts sd (k # ks) =
     and_then (dict_get sd k) (\<lambda>t.
     and_then (flatten_parts sd ks) (\<lambda>ps. Inr (data t # ps)))"

definition flatten_state_dict :: "'a state_dict \<Rightarrow> string list \<Rightarrow> py_error + 'a list" where
  "flatten_state_dict sd keys = and_then (flatten_parts sd keys) np_concatenate"

text \<open>
  The loop of \<open>_unflatten_to_state_dict\<close> over \<open>zip(keys, shapes, numels)\<close>, with the
  running \<open>offset\<close> and the \<open>result\<close> dict built so far. A slice past the end of
  \<open>flat\<close> is shorter, not an error; the reshape then raises.
\<close>

fun unflatten_loop ::
  "'a list \<Rightarrow> nat \<Rightarrow> (string \<times> nat list \<times> nat) list \<Rightarrow> 'a state_dict \<Rightarrow> py_error + 'a state_dict"
where
  "unflatten_loop flat offset [] result = Inr result"
| "unflatten_loop flat offset ((key, shp, n) # rest) result =
     and_then (reshape (take n (drop offset flat)) shp) (\<lambda>t.
     unflatten_loop flat (offset + n) rest (dict_set result key t))"

definition unflatten_to_state_dict ::
  "'a list \<Rightarrow> string list \<Rightarrow> nat list list \<Rightarrow> nat list \<Rightarrow> py_error + 'a state_dict"
where
  "unflatten_to_state_dict flat keys shapes numels =
     unflatten_loop flat 0 (zip keys (zip shapes numels)) []"

text \<open>
  The round trip of the claim: flatten \<open>T\<close> along its own key list, then unflatten with
  the shapes and element counts read off \<open>T\<close>, as \<open>aggregate\<close> collects them.
\<close>

definition flatten_unflatten :: "'a state_dict \<Rightarrow> py_error + 'a state_dict" where
  "flatten_unflatten T =
     and_then (flatten_state_dict T (dict_keys T)) (\<lambda>flat.
     unflatten_to_state_dict flat (dict_keys T)
       (map (\<lambda>kv. shape (snd kv)) T) (map (\<lambda>kv. numel (snd kv)) T))"

section \<open>geometric\_median.py: Weiszfeld and the aggregator\<close>

text \<open>
  \<open>points\<close> is the \<open>(n, D)\<close> matrix as a list of rows. \<open>np.stack\<close> raises
  \<open>ValueError\<close> on an empty list and on rows of different lengths, so every matrix
  that reaches \<open>_weiszfeld\<close> is rectangular with at least one row.
\<close>

definition np_stack :: "real list list \<Rightarrow> py_error + real list list" where
  "np_stack rows =
     (if rows = [] then Inl ValueError
      else if list_all (\<lambda>r. length r = length (hd rows)) rows then Inr rows
      else Inl ValueError)"

definition l2_norm :: "real list \<Rightarrow> real" where
  "l2_norm v = sqrt (sum_list (map (\<lambda>x. x * x) v))"

definition vec_sub :: "real list \<Rightarrow> real list \<Rightarrow> real list" where
  "vec_sub a b = map2 (-) a b"

definition column :: "real list list \<Rightarrow> nat \<Rightarrow> real list" where
  "column rows j = map (\<lambda>r. r ! j) rows"

definition np_mean_axis0 :: "real list list \<Rightarrow> real list" where
  "np_mean_axis0 rows =
     map (\<lambda>j. sum_list (column rows j) / real (length rows)) [0..<length (hd rows)]"

text \<open>One pass of the loop body of \<open>_weiszfeld\<close>: the new estimate \<open>y_new\<close>.\<close>

definition weiszfeld_weights :: "real list list \<Rightarrow> real list \<Rightarrow> real list" where
  "weiszfeld_weights points y =
     map (\<lambda>p. let d = l2_norm (vec_sub p y)
               in if d > 1 / 10 ^ 12 then 1 / d else 10 ^ 12) points"

definition weiszfeld_step :: "real list list \<Rightarrow> real list \<Rightarrow> real list" where
  "weiszfeld_step points y =
     (let weights = weiszfeld_weights points y;
          total_weight = sum_list weights
      in map (\<lambda>j. sum_list (map2 (\<lambda>w p. w * p ! j) weights points) / total_weight)
           [0..<length (hd points)])"

text \<open>
  The \<open>for iteration in range(1, max_iter + 1)\<close> loop, entered at \<open>iteration\<close> with
  estimate \<open>y\<close>; it returns the estimate and the number of iterations performed.
\<close>

function weiszfeld_loop ::
  "real list list \<Rightarrow> real \<Rightarrow> int \<Rightarrow> int \<Rightarrow> real list \<Rightarrow> real list \<times> int"
where
  "weiszfeld_loop points eps max_iter iteration y =
     (if iteration > max_iter then (y, max_iter)
      else let y_new = weiszfeld_step points y;
               shift = l2_norm (vec_sub y_new y)
           in if shift < eps then (y_new, iteration)
              else weiszfeld_loop points eps max_iter (iteration + 1) y_new)"
  by pat_completeness auto
termination
  by (relation "measure (\<lambda>(points, eps, max_iter, iteration, y). nat (max_iter + 1 - iteration))")
    auto

record GeometricMedianAggregator =
  max_iter :: int
  eps :: real
  last_iterations :: "int option"

text \<open>
  \<open>__init__\<close> sets \<open>max_iter\<close> and \<open>eps\<close> and nothing else; the attribute
  \<open>_last_iterations\<close>, which the controller reads with \<open>getattr\<close>, is absent (\<open>None\<close>).
\<close>

definition GeometricMedianAggregator_init :: "int \<Rightarrow> real \<Rightarrow> GeometricMedianAggregator" where
  "GeometricMedianAggregator_init m e = \<lparr>max_iter = m, eps = e, last_iterations = None\<rparr>"

definition weiszfeld :: "GeometricMedianAggregator \<Rightarrow> real list list \<Rightarrow> real list \<times> int" where
  "weiszfeld self points =
     weiszfeld_loop points (eps self) (max_iter self) 1 (np_mean_axis0 points)"

fun flatten_all :: "real state_dict list \<Rightarrow> string list \<Rightarrow> py_error + real list list" where
  "flatten_all [] keys = Inr []"
| "flatten_all (sd # sds) keys =
     and_then (flatten_state_dict sd keys) (\<lambda>v.
     and_then (flatten_all sds keys) (\<lambda>vs. Inr (v # vs)))"

text \<open>
  \<open>aggregate\<close> returns the aggregated state dict together with the aggregator object
  as the call leaves it: the iteration count of \<open>_weiszfeld\<close> is bound to a local
  (\<open>_num_iters\<close>) and dropped, and no attribute of \<open>self\<close> is assigned.
\<close>

definition aggregate ::
  "GeometricMedianAggregator \<Rightarrow> real state_dict list
     \<Rightarrow> py_error + (real state_dict \<times> GeometricMedianAggregator)"
where
  "aggregate self client_updates =
     (if client_updates = [] then Inl ValueError
      else if length client_updates = 1 then Inr (hd client_updates, self)
      else
        let first = hd client_updates;
            param_keys = dict_keys first;
            param_shapes = map (\<lambda>kv. shape (snd kv)) first;
            param_numels = map (\<lambda>kv. numel (snd kv)) first
        in and_then (flatten_all client_updates param_keys) (\<lambda>rows.
           and_then (np_stack rows) (\<lambda>points.
           let (median_flat, num_iters) = weiszfeld self points
           in and_then
                (unflatten_to_state_dict median_flat param_keys param_shapes param_numels)
                (\<lambda>aggregated. Inr (aggregated, self)))))"

text \<open>
  \<open>compute_distances\<close>. Subtracting arrays of different lengths raises (numpy cannot
  broadcast them, lengths 1 apart from that).
\<close>

definition np_sub :: "real list \<Rightarrow> real list \<Rightarrow> py_error + real list" where
  "np_sub a b =
     (if length a = length b then Inr (vec_sub a b)
      else if length a = 1 then Inr (map (\<lambda>x. hd a - x) b)
      else if length b = 1 then Inr (map (\<lambda>x. x - hd b) a)
      else Inl ValueError)"

fun distances_loop ::
  "real state_dict list \<Rightarrow> string list \<Rightarrow> real list \<Rightarrow> py_error + real list"
where
  "distances_loop [] keys median_flat = Inr []"
| "distances_loop (sd # sds) keys median_flat =
     and_then (flatten_state_dict sd keys) (\<lambda>client_flat.
     and_then (np_sub client_flat median_flat) (\<lambda>diff.
     and_then (distances_loop sds keys median_flat) (\<lambda>ds. Inr (l2_norm diff # ds))))"

definition compute_distances ::
  "real state_dict list \<Rightarrow> real state_dict \<Rightarrow> py_error + real list"
where
  "compute_distances client_updates median =
     (let param_keys = dict_keys median
      in and_then (flatten_state_dict median param_keys) (\<lambda>median_flat.
         distances_loop client_updates param_keys median_flat))"

section \<open>selective\_he.py\<close>

text \<open>
  TenSEAL is an external library. \<open>ckks_decrypt\<close> stands for what
  \<open>lazy_ckks_vector_from\<close>, \<open>link_context\<close> and \<open>decrypt\<close> yield under the
  instance's context: the flat list of decrypted slots of a serialised ciphertext
  produced under that context. \<open>shapes\<close> is the registry \<open>_shapes\<close>.
\<close>

record 'c SelectiveHE =
  ckks_decrypt :: "'c \<Rightarrow> real list"
  shapes :: "(string, nat list) dict"

definition decrypt_tensor :: "'c SelectiveHE \<Rightarrow> 'c \<Rightarrow> nat list \<Rightarrow> py_error + real tensor" where
  "decrypt_tensor self encrypted_bytes shp =
     (let decrypted_flat = ckks_decrypt self encrypted_bytes;
          num_elements = prod_list shp
      in reshape (take num_elements decrypted_flat) shp)"

text \<open>
  The loop of \<open>decrypt_head\<close> over the items of \<open>encrypted_dict\<close>, with the dict
  \<open>decrypted\<close> built so far. A key without a registered shape raises \<open>ValueError\<close>
  (the spec's \<open>MissingShape\<close>); \<open>reshape\<close> raises \<open>RuntimeError\<close>.
\<close>

fun decrypt_head_loop ::
  "'c SelectiveHE \<Rightarrow> (string, 'c) dict \<Rightarrow> real state_dict \<Rightarrow> py_error + real state_dict"
where
  "decrypt_head_loop self [] decrypted = Inr decrypted"
| "decrypt_head_loop self ((name, enc_bytes) # rest) decrypted =
     (case map_of (shapes self) name of
        None \<Rightarrow> Inl ValueError
      | Some shp \<Rightarrow>
          and_then (decrypt_tensor self enc_bytes shp) (\<lambda>t.
          decrypt_head_loop self rest (dict_set decrypted name t)))"

definition decrypt_head :: "'c SelectiveHE \<Rightarrow> (string, 'c) dict \<Rightarrow> py_error + real state_dict" where
  "decrypt_head self encrypted_dict = decrypt_head_loop self encrypted_dict []"

text \<open>
  The entry that decrypting one item yields when its key is registered and the
  ciphertext has enough slots: the registered shape and the leading slots.
\<close>

definition he_expected :: "'c SelectiveHE \<Rightarrow> string \<times> 'c \<Rightarrow> string \<times> real tensor" where
  "he_expected self kv =
     (fst kv, \<lparr>shape = the (map_of (shapes self) (fst kv)),
               data = take (prod_list (the (map_of (shapes self) (fst kv))))
                        (ckks_decrypt self (snd kv))\<rparr>)"

section \<open>db\_writer.py\<close>

text \<open>
  The five tables as lists of rows in table order, each serial \<open>id\<close> column with its
  sequence. Timestamps are clock readings (\<open>nat\<close>). \<open>faults\<close> is the schedule of
  database failures: every statement batch that the writer runs inside one \<open>try\<close>
  takes the next flag, and \<open>True\<close> means that it raises there (the connection is down,
  a constraint fails, ...); an empty schedule means no further failure.
\<close>

record round_row =
  tr_id :: int
  tr_round_number :: int
  tr_job_id :: "string option"
  tr_status :: "string option"
  tr_num_clients :: "int option"
  tr_global_loss :: "real option"
  tr_global_auc :: "real option"
  tr_started_at :: "nat option"
  tr_completed_at :: "nat option"

record round_metric_row =
  rm_id :: int
  rm_round_id :: int
  rm_aggregation_method :: string
  rm_weiszfeld_iterations :: int
  rm_convergence_epsilon :: real
  rm_encryption_overhead_ms :: int
  rm_aggregation_time_ms :: int
  rm_poisoned_clients_detected :: int

record client_update_row =
  cu_id :: int
  cu_round_id :: int
  cu_client_id :: "int option"
  cu_local_loss :: real
  cu_local_auc :: real
  cu_num_samples :: int
  cu_euclidean_distance :: real
  cu_encryption_status :: string
  cu_submitted_at :: nat

record trust_score_row =
  ts_id :: int
  ts_client_id :: "int option"
  ts_round_id :: int
  ts_score :: real
  ts_deviation_avg :: real
  ts_is_flagged :: bool
  ts_created_at :: nat

record client_row =
  cl_id :: int
  cl_client_id :: string
  cl_name :: string

record database =
  training_rounds :: "round_row list"
  training_rounds_seq :: int
  round_metrics :: "round_metric_row list"
  round_metrics_seq :: int
  client_updates :: "client_update_row list"
  client_updates_seq :: int
  trust_scores :: "trust_score_row list"
  trust_scores_seq :: int
  clients :: "client_row list"
  faults :: "bool list"

definition next_fault :: "database \<Rightarrow> bool \<times> database" where
  "next_fault db = (case faults db of [] \<Rightarrow> (False, db) | f # fs \<Rightarrow> (f, db\<lparr>faults := fs\<rparr>))"

text \<open>\<open>_get_client_id_by_name\<close>: a failing lookup is caught there and gives \<open>None\<close>.\<close>

definition get_client_id_by_name :: "database \<Rightarrow> string \<Rightarrow> database \<times> int option" where
  "get_client_id_by_name db client_name =
     (case next_fault db of
        (True, db') \<Rightarrow> (db', None)
      | (False, db') \<Rightarrow>
          (db', map_option cl_id (find (\<lambda>c. cl_name c = client_name) (clients db'))))"

text \<open>The \<open>values\<close> dict of \<open>write_round\<close>, applied to a row: optional fields only when given.\<close>

definition round_values ::
  "int \<Rightarrow> string option \<Rightarrow> string \<Rightarrow> int \<Rightarrow> real option \<Rightarrow> real option \<Rightarrow> nat option \<Rightarrow> nat option
     \<Rightarrow> round_row \<Rightarrow> round_row"
where
  "round_values round_number job_id status num_clients global_loss global_auc started_at
       completed_at r =
     r\<lparr>tr_round_number := round_number,
       tr_status := Some status,
       tr_num_clients := Some num_clients,
       tr_job_id := (case job_id of None \<Rightarrow> tr_job_id r | Some v \<Rightarrow> Some v),
       tr_global_loss := (case global_loss of None \<Rightarrow> tr_global_loss r | Some v \<Rightarrow> Some v),
       tr_global_auc := (case global_auc of None \<Rightarrow> tr_global_auc r | Some v \<Rightarrow> Some v),
       tr_started_at := (case started_at of None \<Rightarrow> tr_started_at r | Some v \<Rightarrow> Some v),
       tr_completed_at := (case completed_at of None \<Rightarrow> tr_completed_at r | Some v \<Rightarrow> Some v)\<rparr>"

definition empty_round_row :: "int \<Rightarrow> round_row" where
  "empty_round_row i =
     \<lparr>tr_id = i, tr_round_number = 0, tr_job_id = None, tr_status = None,
      tr_num_clients = None, tr_global_loss = None, tr_global_auc = None,
      tr_started_at = None, tr_completed_at = None\<rparr>"

text \<open>
  \<open>write_round\<close>: select the first row with the round number; update every row with
  its id, or insert a row with the next id of the sequence. A failure (also an id that
  is already taken) rolls back and returns \<open>None\<close>.
\<close>

definition write_round ::
  "database \<Rightarrow> int \<Rightarrow> string option \<Rightarrow> string \<Rightarrow> int \<Rightarrow> real option \<Rightarrow> real option
     \<Rightarrow> nat option \<Rightarrow> nat option \<Rightarrow> database \<times> int option"
where
  "write_round db round_number job_id status num_clients global_loss global_auc started_at
       completed_at =
     (case next_fault db of
        (True, db') \<Rightarrow> (db', None)
      | (False, db') \<Rightarrow>
          let vals = round_values round_number job_id status num_clients global_loss global_auc
                       started_at completed_at
          in case find (\<lambda>r. tr_round_number r = round_number) (training_rounds db') of
               Some existing \<Rightarrow>
                 (db'\<lparr>training_rounds :=
                        map (\<lambda>r. if tr_id r = tr_id existing then vals r else r)
                          (training_rounds db')\<rparr>,
                  Some (tr_id existing))
             | None \<Rightarrow>
                 let new_id = training_rounds_seq db';
                     db'' = db'\<lparr>training_rounds_seq := new_id + 1\<rparr>
                 in if new_id \<in> tr_id ` set (training_rounds db') then (db'', None)
                    else (db''\<lparr>training_rounds :=
                                 training_rounds db' @ [vals (empty_round_row new_id)]\<rparr>,
                          Some new_id))"

definition write_client_update ::
  "database \<Rightarrow> nat \<Rightarrow> int \<Rightarrow> string \<Rightarrow> real \<Rightarrow> real \<Rightarrow> int \<Rightarrow> real \<Rightarrow> string
     \<Rightarrow> database \<times> int option"
where
  "write_client_update db now round_id client_name local_loss local_auc num_samples
       euclidean_distance encryption_status =
     (let (db0, client_pk) = get_client_id_by_name db client_name
      in case next_fault db0 of
           (True, db') \<Rightarrow> (db', None)
         | (False, db') \<Rightarrow>
             let new_id = client_updates_seq db';
                 db'' = db'\<lparr>client_updates_seq := new_id + 1\<rparr>
             in if new_id \<in> cu_id ` set (client_updates db') then (db'', None)
                else (db''\<lparr>client_updates := client_updates db' @
                        [\<lparr>cu_id = new_id, cu_round_id = round_id, cu_client_id = client_pk,
                          cu_local_loss = local_loss, cu_local_auc = local_auc,
                          cu_num_samples = num_samples,
                          cu_euclidean_distance = euclidean_distance,
                          cu_encryption_status = encryption_status,
                          cu_submitted_at = now\<rparr>]\<rparr>,
                      Some new_id))"

definition write_round_metric ::
  "database \<Rightarrow> int \<Rightarrow> string \<Rightarrow> int \<Rightarrow> real \<Rightarrow> int \<Rightarrow> int \<Rightarrow> int \<Rightarrow> database \<times> int option"
where
  "write_round_metric db round_id aggregation_method weiszfeld_iterations convergence_epsilon
       encryption_overhead_ms aggregation_time_ms poisoned_clients_detected =
     (case next_fault db of
        (True, db') \<Rightarrow> (db', None)
      | (False, db') \<Rightarrow>
          let new_id = round_metrics_seq db';
              db'' = db'\<lparr>round_metrics_seq := new_id + 1\<rparr>
          in if new_id \<in> rm_id ` set (round_metrics db') then (db'', None)
             else (db''\<lparr>round_metrics := round_metrics db' @
                     [\<lparr>rm_id = new_id, rm_round_id = round_id,
                       rm_aggregation_method = aggregation_method,
                       rm_weiszfeld_iterations = weiszfeld_iterations,
                       rm_convergence_epsilon = convergence_epsilon,
                       rm_encryption_overhead_ms = encryption_overhead_ms,
                       rm_aggregation_time_ms = aggregation_time_ms,
                       rm_poisoned_clients_detected = poisoned_clients_detected\<rparr>]\<rparr>,
                   Some new_id))"

definition write_trust_score ::
  "database \<Rightarrow> nat \<Rightarrow> string \<Rightarrow> int \<Rightarrow> real \<Rightarrow> real \<Rightarrow> bool \<Rightarrow> database \<times> int option"
where
  "write_trust_score db now client_name round_id score deviation_avg is_flagged =
     (let (db0, client_pk) = get_client_id_by_name db client_name
      in case next_fault db0 of
           (True, db') \<Rightarrow> (db', None)
         | (False, db') \<Rightarrow>
             let new_id = trust_scores_seq db';
                 db'' = db'\<lparr>trust_scores_seq := new_id + 1\<rparr>
             in if new_id \<in> ts_id ` set (trust_scores db') then (db'', None)
                else (db''\<lparr>trust_scores := trust_scores db' @
                        [\<lparr>ts_id = new_id, ts_client_id = client_pk, ts_round_id = round_id,
                          ts_score = score, ts_deviation_avg = deviation_avg,
                          ts_is_flagged = is_flagged, ts_created_at = now\<rparr>]\<rparr>,
                      Some new_id))"

text \<open>
  The schema's constraints on \<open>training_rounds\<close>: \<open>id\<close> is the primary key and
  \<open>round_number\<close> is unique.
\<close>

definition consistent_rounds :: "database \<Rightarrow> bool" where
  "consistent_rounds db =
     (distinct (map tr_id (training_rounds db)) \<and>
      distinct (map tr_round_number (training_rounds db)))"

definition empty_database :: database where
  "empty_database =
     \<lparr>training_rounds = [], training_rounds_seq = 1,
      round_metrics = [], round_metrics_seq = 1,
      client_updates = [], client_updates_seq = 1,
      trust_scores = [], trust_scores_seq = 1,
      clients = [], faults = []\<rparr>"

section \<open>aggregator.py\<close>

datatype return_code = OK | TASK_ABORTED | TASK_UNKNOWN | EXECUTION_EXCEPTION

text \<open>A head entry as it arrives: a plaintext tensor or serialised ciphertext bytes.\<close>

datatype weight = Plain "real tensor" | Cipher string

text \<open>
  A client's reply (\<open>Shareable\<close>): its return code and the entries the controller reads
  with \<open>result.get(key, default)\<close>, \<open>None\<close> for an absent key.
\<close>

record shareable =
  rc :: return_code
  sh_body_weights :: "real state_dict option"
  sh_head_weights :: "(string, weight) dict option"
  sh_local_loss :: "real option"
  sh_local_auc :: "real option"
  sh_num_samples :: "int option"
  sh_encryption_status :: "string option"

record client_task =
  client_name :: string
  result :: "shareable option"

record client_result =
  cr_client_name :: string
  cr_body_weights :: "real state_dict"
  cr_head_weights :: "(string, weight) dict"
  cr_local_loss :: real
  cr_local_auc :: real
  cr_num_samples :: int
  cr_encryption_status :: string

text \<open>
  What one round receives from outside: the abort signal at the top of the round, the
  job id, the clock readings, and \<open>task.client_tasks\<close> as \<open>broadcast_and_wait\<close>
  leaves it.
\<close>

record round_env =
  abort_triggered :: bool
  job_id :: "string option"
  round_start :: nat
  client_tasks :: "client_task list"
  agg_time_ms :: int
  round_end :: nat
  write_time :: nat

record controller =
  num_rounds :: int
  min_clients :: int
  aggregator :: GeometricMedianAggregator
  db_writer :: "database option"
  global_model_weights :: "real state_dict option"

definition GeomMedianController_init :: "int \<Rightarrow> int \<Rightarrow> database option \<Rightarrow> controller" where
  "GeomMedianController_init n m db =
     \<lparr>num_rounds = n, min_clients = m,
      aggregator = GeometricMedianAggregator_init 100 (1 / 10 ^ 5),
      db_writer = db, global_model_weights = None\<rparr>"

text \<open>The collection loop: replies that are present and carry \<open>ReturnCode.OK\<close>.\<close>

fun collect_results :: "client_task list \<Rightarrow> client_result list" where
  "collect_results [] = []"
| "collect_results (t # ts) =
     (case result t of
        None \<Rightarrow> collect_results ts
      | Some r \<Rightarrow>
          if rc r = OK then
            \<lparr>cr_client_name = client_name t,
             cr_body_weights = (case sh_body_weights r of None \<Rightarrow> [] | Some b \<Rightarrow> b),
             cr_head_weights = (case sh_head_weights r of None \<Rightarrow> [] | Some h \<Rightarrow> h),
             cr_local_loss = (case sh_local_loss r of None \<Rightarrow> 0 | Some x \<Rightarrow> x),
             cr_local_auc = (case sh_local_auc r of None \<Rightarrow> 0 | Some x \<Rightarrow> x),
             cr_num_samples = (case sh_num_samples r of None \<Rightarrow> 0 | Some x \<Rightarrow> x),
             cr_encryption_status =
               (case sh_encryption_status r of None \<Rightarrow> ''plaintext'' | Some x \<Rightarrow> x)\<rparr>
            # collect_results ts
          else collect_results ts)"

text \<open>
  \<open>torch.stack\<close> raises \<open>TypeError\<close> on an element that is not a tensor (bytes) and
  \<open>RuntimeError\<close> on an empty list or on tensors of different shapes;
  \<open>mean(dim=0)\<close> is the element-wise mean of the stacked tensors.
\<close>

fun plain_tensors :: "weight list \<Rightarrow> py_error + real tensor list" where
  "plain_tensors [] = Inr []"
| "plain_tensors (Plain t # ws) = and_then (plain_tensors ws) (\<lambda>ts. Inr (t # ts))"
| "plain_tensors (Cipher c # ws) = Inl TypeError"

definition torch_stack :: "weight list \<Rightarrow> py_error + real tensor list" where
  "torch_stack ws =
     and_then (plain_tensors ws) (\<lambda>ts.
       if ts = [] then Inl RuntimeError
       else if list_all (\<lambda>t. shape t = shape (hd ts)) ts then Inr ts
       else Inl RuntimeError)"

definition mean_dim0 :: "real tensor list \<Rightarrow> real tensor" where
  "mean_dim0 ts =
     \<lparr>shape = shape (hd ts),
      data = map (\<lambda>j. sum_list (map (\<lambda>t. data t ! j) ts) / real (length ts))
               [0..<length (data (hd ts))]\<rparr>"

text \<open>
  The head step of \<open>control_flow\<close>: for each key of the first client's head, the mean
  over the clients whose head has the key. No entry is decrypted.
\<close>

fun head_loop ::
  "string list \<Rightarrow> (string, weight) dict list \<Rightarrow> real state_dict \<Rightarrow> py_error + real state_dict"
where
  "head_loop [] head_updates aggregated_head = Inr aggregated_head"
| "head_loop (key # keys) head_updates aggregated_head =
     (let stacked = List.map_filter (\<lambda>h. map_of h key) head_updates
      in if stacked \<noteq> [] then
           and_then (torch_stack stacked) (\<lambda>ts.
           head_loop keys head_updates (dict_set aggregated_head key (mean_dim0 ts)))
         else head_loop keys head_updates aggregated_head)"

definition aggregate_head :: "(string, weight) dict list \<Rightarrow> py_error + real state_dict" where
  "aggregate_head head_updates =
     (if head_updates \<noteq> [] \<and> hd head_updates \<noteq> []
      then head_loop (dict_keys (hd head_updates)) head_updates []
      else Inr [])"

text \<open>\<open>{**a, **b}\<close>.\<close>

definition dict_merge :: "('k, 'v) dict \<Rightarrow> ('k, 'v) dict \<Rightarrow> ('k, 'v) dict" where
  "dict_merge a b = foldl (\<lambda>d kv. dict_set d (fst kv) (snd kv)) a b"

text \<open>\<open>getattr(self.aggregator, '_last_iterations', 0)\<close>.\<close>

definition getattr_last_iterations :: "GeometricMedianAggregator \<Rightarrow> int" where
  "getattr_last_iterations a = (case last_iterations a of None \<Rightarrow> 0 | Some n \<Rightarrow> n)"

text \<open>\<open>if self.db_writer and round_db_id\<close>: a writer is configured and the id is truthy.\<close>

definition db_enabled :: "database option \<Rightarrow> int option \<Rightarrow> (database \<times> int) option" where
  "db_enabled db round_db_id =
     (case db of
        None \<Rightarrow> None
      | Some d \<Rightarrow> (case round_db_id of
                     None \<Rightarrow> None
                   | Some i \<Rightarrow> if i = 0 then None else Some (d, i)))"

text \<open>The per-client writes at the end of a completed round, from index \<open>i\<close> on.\<close>

fun persist_clients ::
  "database \<Rightarrow> nat \<Rightarrow> int \<Rightarrow> real list \<Rightarrow> nat \<Rightarrow> client_result list \<Rightarrow> py_error + database"
where
  "persist_clients db now round_db_id distances i [] = Inr db"
| "persist_clients db now round_db_id distances i (cr # crs) =
     (let dist = (if i < length distances then distances ! i else 0)
      in and_then (truediv 1 (1 + dist)) (\<lambda>trust.
         let db1 = fst (write_client_update db now round_db_id (cr_client_name cr)
                          (cr_local_loss cr) (cr_local_auc cr) (cr_num_samples cr) dist
                          (cr_encryption_status cr));
             db2 = fst (write_trust_score db1 now (cr_client_name cr) round_db_id trust dist
                          (trust < 3 / 10))
         in persist_clients db2 now round_db_id distances (i + 1) crs))"

text \<open>The writes of a completed round.\<close>

definition persist_round ::
  "controller \<Rightarrow> round_env \<Rightarrow> int \<Rightarrow> database \<Rightarrow> int \<Rightarrow> client_result list \<Rightarrow> real list
     \<Rightarrow> real \<Rightarrow> real \<Rightarrow> py_error + database"
where
  "persist_round self env round_num db round_db_id client_results distances avg_loss avg_auc =
     (let db1 = fst (write_round db round_num None ''completed''
                       (int (length client_results)) (Some avg_loss) (Some avg_auc)
                       (Some (round_start env)) (Some (round_end env)));
          weiszfeld_iters = getattr_last_iterations (aggregator self);
          db2 = fst (write_round_metric db1 round_db_id ''geometric_median'' weiszfeld_iters
                       (eps (aggregator self)) 0 (agg_time_ms env)
                       (int (length (filter (\<lambda>d. d > 2) distances))))
      in persist_clients db2 (write_time env) round_db_id distances 0 client_results)"

text \<open>
  The body of the round loop after the abort check, for round \<open>round_num\<close>, in the
  source's order: the first write, the collection, then either the branch for a missed
  quorum or the aggregation and its writes. The result is the controller as the round
  leaves it, or the exception that leaves \<open>control_flow\<close>.
\<close>

definition start_round :: "controller \<Rightarrow> round_env \<Rightarrow> int \<Rightarrow> database option \<times> int option" where
  "start_round self env round_num =
     (case db_writer self of
        None \<Rightarrow> (None, None)
      | Some db \<Rightarrow>
          (let (db', i) = write_round db round_num (job_id env) ''in_progress''
                            (min_clients self) None None (Some (round_start env)) None
           in (Some db', i)))"

definition fail_round ::
  "controller \<Rightarrow> int \<Rightarrow> database option \<Rightarrow> int option \<Rightarrow> client_result list \<Rightarrow> controller"
where
  "fail_round self round_num db1 round_db_id client_results =
     (case db_enabled db1 round_db_id of
        None \<Rightarrow> self\<lparr>db_writer := db1\<rparr>
      | Some (db, i) \<Rightarrow>
          self\<lparr>db_writer :=
                 Some (fst (write_round db round_num None ''failed''
                              (int (length client_results)) None None None None))\<rparr>)"

definition complete_round ::
  "controller \<Rightarrow> round_env \<Rightarrow> int \<Rightarrow> database option \<Rightarrow> int option \<Rightarrow> client_result list
     \<Rightarrow> py_error + controller"
where
  "complete_round self env round_num db1 round_db_id client_results =
     (let body_updates = map cr_body_weights client_results;
          head_updates = map cr_head_weights client_results
      in and_then (aggregate (aggregator self) body_updates) (\<lambda>(aggregated_body, agg).
         and_then (compute_distances body_updates aggregated_body) (\<lambda>distances.
         and_then (aggregate_head head_updates) (\<lambda>aggregated_head.
         and_then (truediv (sum_list (map cr_local_loss client_results))
                     (real (length client_results))) (\<lambda>avg_loss.
         and_then (truediv (sum_list (map cr_local_auc client_results))
                     (real (length client_results))) (\<lambda>avg_auc.
         let self' = self\<lparr>aggregator := agg,
                          global_model_weights :=
                            Some (dict_merge aggregated_body aggregated_head)\<rparr>
         in case db_enabled db1 round_db_id of
              None \<Rightarrow> Inr (self'\<lparr>db_writer := db1\<rparr>)
            | Some (db, i) \<Rightarrow>
                and_then (persist_round self' env round_num db i client_results
                            distances avg_loss avg_auc)
                  (\<lambda>db2. Inr (self'\<lparr>db_writer := Some db2\<rparr>))))))))"

definition run_round :: "controller \<Rightarrow> round_env \<Rightarrow> int \<Rightarrow> py_error + controller" where
  "run_round self env round_num =
     (let (db1, round_db_id) = start_round self env round_num;
          client_results = collect_results (client_tasks env)
      in if int (length client_results) < min_clients self
         then Inr (fail_round self round_num db1 round_db_id client_results)
         else complete_round self env round_num db1 round_db_id client_results)"

text \<open>
  \<open>control_flow\<close> from round \<open>round_num\<close> on, up to round \<open>n\<close> (\<open>self.num_rounds\<close>);
  \<open>envs r\<close> is what round \<open>r\<close> receives.
\<close>

function control_loop ::
  "(int \<Rightarrow> round_env) \<Rightarrow> int \<Rightarrow> int \<Rightarrow> controller \<Rightarrow> py_error + controller"
where
  "control_loop envs n round_num self =
     (if round_num > n then Inr self
      else if abort_triggered (envs round_num) then Inr self
      else case run_round self (envs round_num) round_num of
             Inl e \<Rightarrow> Inl e
           | Inr self' \<Rightarrow> control_loop envs n (round_num + 1) self')"
  by pat_completeness auto
termination
  by (relation "measure (\<lambda>(envs, n, round_num, self). nat (n + 1 - round_num))") auto

definition control_flow :: "controller \<Rightarrow> (int \<Rightarrow> round_env) \<Rightarrow> py_error + controller" where
  "control_flow self envs = control_loop envs (num_rounds self) 1 self"

text \<open>
  A reply with return code \<open>OK\<close> and no entries, and a round in which two of three
  clients reply so.
\<close>

definition ok_reply :: shareable where
  "ok_reply =
     \<lparr>rc = OK, sh_body_weights = None, sh_head_weights = None, sh_local_loss = None,
      sh_local_auc = None, sh_num_samples = None, sh_encryption_status = None\<rparr>"

definition two_ok_env :: round_env where
  "two_ok_env =
     \<lparr>abort_triggered = False, job_id = None, round_start = 0,
      client_tasks = [\<lparr>client_name = ''site-1'', result = Some ok_reply\<rparr>,
                      \<lparr>client_name = ''site-2'', result = Some ok_reply\<rparr>,
                      \<lparr>client_name = ''site-3'', result = None\<rparr>],
      agg_time_ms = 0, round_end = 0, write_time = 0\<rparr>"

text \<open>
  Two clients that both send the body \<open>{p: [0.0]}\<close> and no head, to a controller with
  \<open>min_clients = 2\<close> and an empty database.
\<close>

definition zero_update :: "real state_dict" where
  "zero_update = [(''p'', \<lparr>shape = [1], data = [0]\<rparr>)]"

definition zero_reply :: shareable where
  "zero_reply =
     \<lparr>rc = OK, sh_body_weights = Some zero_update, sh_head_weights = None,
      sh_local_loss = None, sh_local_auc = None, sh_num_samples = None,
      sh_encryption_status = None\<rparr>"

definition two_zero_env :: round_env where
  "two_zero_env =
     \<lparr>abort_triggered = False, job_id = None, round_start = 0,
      client_tasks = [\<lparr>client_name = ''site-1'', result = Some zero_reply\<rparr>,
                      \<lparr>client_name = ''site-2'', result = Some zero_reply\<rparr>],
      agg_time_ms = 0, round_end = 0, write_time = 0\<rparr>"

definition zero_ctl :: controller where
  "zero_ctl = GeomMedianController_init 1 2 (Some empty_database)"

text \<open>
  Two clients that reply \<open>OK\<close> with the body \<open>{p: [0.0]}\<close> and a head whose one
  entry is serialised ciphertext, as the executor's \<open>encrypt_head\<close> produces it.
\<close>

definition encrypted_reply :: "string \<Rightarrow> shareable" where
  "encrypted_reply c =
     \<lparr>rc = OK, sh_body_weights = Some zero_update,
      sh_head_weights = Some [(''classifier.bias'', Cipher c)],
      sh_local_loss = None, sh_local_auc = None, sh_num_samples = None,
      sh_encryption_status = None\<rparr>"

definition two_encrypted_env :: round_env where
  "two_encrypted_env =
     \<lparr>abort_triggered = False, job_id = None, round_start = 0,
      client_tasks = [\<lparr>client_name = ''site-1'', result = Some (encrypted_reply ''ct-1'')\<rparr>,
                      \<lparr>client_name = ''site-2'', result = Some (encrypted_reply ''ct-2'')\<rparr>],
      agg_time_ms = 0, round_end = 0, write_time = 0\<rparr>"

text \<open>
  The three client updates \<open>{p: [0,0]}\<close>, \<open>{p: [1,0]}\<close>, \<open>{p: [0,1]}\<close> and their
  matrix of flattened rows. On the diagonal \<open>y = [t, t]\<close> one Weiszfeld pass over these
  points gives \<open>[diag_next t, diag_next t]\<close>; \<open>diag_gap W t\<close> is non-negative exactly
  when \<open>diag_next t \<le> W\<close>. \<open>in_band\<close> says that a result of \<open>_weiszfeld\<close> lies on
  the diagonal between \<open>0.21\<close> and \<open>0.22\<close>.
\<close>

definition three_points :: "real list list" where
  "three_points = [[0, 0], [1, 0], [0, 1]]"

definition three_updates :: "real state_dict list" where
  "three_updates =
     [[(''p'', \<lparr>shape = [2], data = [0, 0]\<rparr>)],
      [(''p'', \<lparr>shape = [2], data = [1, 0]\<rparr>)],
      [(''p'', \<lparr>shape = [2], data = [0, 1]\<rparr>)]]"

definition diag_next :: "real \<Rightarrow> real" where
  "diag_next t = sqrt (2 * t\<^sup>2) / (sqrt ((1 - t)\<^sup>2 + t\<^sup>2) + 2 * sqrt (2 * t\<^sup>2))"

definition diag_gap :: "real \<Rightarrow> real \<Rightarrow> real" where
  "diag_gap W t = W\<^sup>2 * ((1 - t)\<^sup>2 + t\<^sup>2) - (1 - 2 * W)\<^sup>2 * (2 * t\<^sup>2)"

definition in_band :: "real list \<times> int \<Rightarrow> bool" where
  "in_band r = (\<exists>t. fst r = [t, t] \<and> 21 / 100 \<le> t \<and> t \<le> 22 / 100)"

section \<open>Properties\<close>

subsection \<open>Error plumbing\<close>

declare weiszfeld_loop.simps [simp del]

declare control_loop.simps [simp del]

lemma and_then_Inr [simp]: "and_then (Inr x) f = f x"
  by (simp add: and_then_def)

lemma and_then_Inl [simp]: "and_then (Inl e) f = Inl e"
  by (simp add: and_then_def)

subsection \<open>Bounds on the exponential and on two logarithms\<close>

lemma exp_Taylor_lower:
  assumes "0 \<le> (x::real)"
  shows "(\<Sum>m<n. x ^ m / fact m) \<le> exp x"
proof -
  obtain t where t: "exp x = (\<Sum>m<n. x ^ m / fact m) + (exp t / fact n) * x ^ n"
    using Maclaurin_exp_le [of x n] by blast
  have "0 \<le> (exp t / fact n) * x ^ n" using assms by simp
  with t show ?thesis by linarith
qed

lemma exp_Taylor_upper:
  assumes "0 \<le> (x::real)" "x \<le> 1"
  shows "exp x \<le> (\<Sum>m<n. x ^ m / fact m) + 3 * x ^ n / fact n"
proof -
  obtain t where t: "\<bar>t\<bar> \<le> \<bar>x\<bar>" "exp x = (\<Sum>m<n. x ^ m / fact m) + (exp t / fact n) * x ^ n"
    using Maclaurin_exp_le [of x n] by blast
  have "t \<le> 1" using t(1) assms by linarith
  then have "exp t \<le> exp 1" by simp
  also have "\<dots> \<le> 3" by (rule exp_le)
  finally have "exp t \<le> 3" .
  then have "exp t * (x ^ n / fact n) \<le> 3 * (x ^ n / fact n)"
    using assms by (intro mult_right_mono) simp_all
  with t(2) show ?thesis by simp
qed

lemma ln2_lower: "6931 / 10000 \<le> ln (2::real)"
proof -
  have "exp (6931 / 10000 :: real) \<le> (\<Sum>m<8. (6931 / 10000) ^ m / fact m) + 3 * (6931 / 10000) ^ 8 / fact 8"
    by (rule exp_Taylor_upper) simp_all
  also have "\<dots> \<le> 2"
    by (simp add: eval_nat_numeral lessThan_Suc)
  finally have "exp (6931 / 10000 :: real) \<le> exp (ln 2)" by simp
  then show ?thesis by (simp only: exp_le_cancel_iff)
qed

lemma ln2_upper: "ln (2::real) \<le> 6932 / 10000"
proof -
  have "(2::real) \<le> (\<Sum>m<8. (6932 / 10000) ^ m / fact m)"
    by (simp add: eval_nat_numeral lessThan_Suc)
  also have "\<dots> \<le> exp (6932 / 10000)"
    by (rule exp_Taylor_lower) simp
  finally have "exp (ln 2) \<le> exp (6932 / 10000 :: real)" by simp
  then show ?thesis by (simp only: exp_le_cancel_iff)
qed

lemma ln54_lower: "2231 / 10000 \<le> ln (5 / 4 :: real)"
proof -
  have "exp (2231 / 10000 :: real) \<le> (\<Sum>m<6. (2231 / 10000) ^ m / fact m) + 3 * (2231 / 10000) ^ 6 / fact 6"
    by (rule exp_Taylor_upper) simp_all
  also have "\<dots> \<le> 5 / 4"
    by (simp add: eval_nat_numeral lessThan_Suc)
  finally have "exp (2231 / 10000 :: real) \<le> exp (ln (5 / 4))" by simp
  then show ?thesis by (simp only: exp_le_cancel_iff)
qed

lemma ln54_upper: "ln (5 / 4 :: real) \<le> 2232 / 10000"
proof -
  have "(5 / 4 ::real) \<le> (\<Sum>m<6. (2232 / 10000) ^ m / fact m)"
    by (simp add: eval_nat_numeral lessThan_Suc)
  also have "\<dots> \<le> exp (2232 / 10000)"
    by (rule exp_Taylor_lower) simp
  finally have "exp (ln (5 / 4)) \<le> exp (2232 / 10000 :: real)" by simp
  then show ?thesis by (simp only: exp_le_cancel_iff)
qed

lemma ln_125000: "ln (125000::real) = 15 * ln 2 + 6 * ln (5 / 4)"
proof -
  have "(125000::real) = 2 ^ 15 * (5 / 4) ^ 6" by (simp add: power_divide)
  then have "ln (125000::real) = ln (2 ^ 15 * (5 / 4) ^ 6)" by simp
  also have "\<dots> = ln ((2::real) ^ 15) + ln ((5 / 4 :: real) ^ 6)"
    by (rule ln_mult_pos) simp_all
  also have "\<dots> = 15 * ln 2 + 6 * ln (5 / 4)"
    by (simp only: ln_realpow)
  finally show ?thesis .
qed

lemma sigma_default_bounds:
  "4844 / 1000 < sqrt (2 * ln (125000::real))" "sqrt (2 * ln (125000::real)) < 4846 / 1000"
proof -
  have lo: "234702 / 10000 \<le> 2 * ln (125000::real)"
    using ln2_lower ln54_lower by (simp add: ln_125000)
  have hi: "2 * ln (125000::real) \<le> 234744 / 10000"
    using ln2_upper ln54_upper by (simp add: ln_125000)
  have "(4844 / 1000)\<^sup>2 < (234702 / 10000 :: real)" by (simp add: power2_eq_square)
  with lo have "(4844 / 1000)\<^sup>2 < 2 * ln (125000::real)" by linarith
  then show "4844 / 1000 < sqrt (2 * ln (125000::real))"
    by (rule real_less_rsqrt)
  have "(234744 / 10000 :: real) < (4846 / 1000)\<^sup>2" by (simp add: power2_eq_square)
  with hi have "2 * ln (125000::real) < (4846 / 1000)\<^sup>2" by linarith
  then show "sqrt (2 * ln (125000::real)) < 4846 / 1000"
    by (rule real_less_lsqrt [rotated 1]) simp_all
qed

subsection \<open>The DP mechanism's constructor\<close>

lemma ln_125_pos:
  assumes "0 < d" "d < 1"
  shows "0 < ln (125 / 100 / d :: real)"
proof -
  have "1 < 125 / 100 / d" using assms by (simp add: field_simps)
  then show ?thesis by (rule ln_gt_zero)
qed

lemma compute_sigma_valid:
  assumes "0 < e" "0 < d" "d < 1"
  shows "compute_sigma e d s = Inr (s * sqrt (2 * ln (125 / 100 / d)) / e)"
  using assms ln_125_pos [OF assms(2,3)]
  by (simp add: compute_sigma_def truediv_def math_log_def math_sqrt_def)

lemma DPNoise_init_valid:
  assumes "0 < e" "0 < d" "d < 1"
  shows "DPNoise_init e d s m =
    Inr \<lparr>epsilon = e, delta = d, sensitivity = s, max_grad_norm = m,
         sigma = s * sqrt (2 * ln (125 / 100 / d)) / e\<rparr>"
  using assms by (simp add: DPNoise_init_def compute_sigma_valid)

lemma DPNoise_init_invalid:
  assumes "\<not> (0 < e \<and> 0 < d \<and> d < 1)"
  shows "DPNoise_init e d s m = Inl ValueError"
  using assms by (auto simp add: DPNoise_init_def)

lemma DPNoise_init_default:
  "DPNoise_init 1 (1 / 100000) 1 m =
    Inr \<lparr>epsilon = 1, delta = 1 / 100000, sensitivity = 1, max_grad_norm = m,
         sigma = sqrt (2 * ln 125000)\<rparr>"
  using DPNoise_init_valid [of 1 "1 / 100000" 1 m] by simp

text \<open>
  C10. The constructor of \<open>DPNoise\<close> checks \<open>epsilon\<close> and \<open>delta\<close> only: it succeeds
  exactly when \<open>0 < epsilon\<close> and \<open>0 < delta < 1\<close>, whatever \<open>sensitivity\<close> and
  \<open>max_grad_norm\<close> are (zero and negative values included), it stores both unchanged,
  and the stored \<open>sigma\<close> has the sign of \<open>sensitivity\<close>, so it may be zero or negative.
\<close>

theorem dpnoise_init_checks_only_epsilon_delta:
  "(\<exists>D. DPNoise_init e d s m = Inr D) = (0 < e \<and> 0 < d \<and> d < 1) \<and>
   (\<forall>D. DPNoise_init e d s m = Inr D \<longrightarrow>
      sensitivity D = s \<and> max_grad_norm D = m \<and>
      (sigma D = 0) = (s = 0) \<and> (sigma D < 0) = (s < 0))"
proof (cases "0 < e \<and> 0 < d \<and> d < 1")
  case True
  then have p: "0 < sqrt (2 * ln (125 / 100 / d))" using ln_125_pos [of d] by simp
  have "DPNoise_init e d s m =
      Inr \<lparr>epsilon = e, delta = d, sensitivity = s, max_grad_norm = m,
           sigma = s * sqrt (2 * ln (125 / 100 / d)) / e\<rparr>"
    using True by (simp add: DPNoise_init_valid)
  then show ?thesis
    using p True by (auto simp add: zero_less_mult_iff mult_less_0_iff divide_less_0_iff)
next
  case False
  then show ?thesis by (simp add: DPNoise_init_invalid)
qed

theorem dpnoise_init_checks_only_epsilon_delta_witness:
  "(\<exists>D. DPNoise_init 1 (1 / 2) (- 2) 0 = Inr D) \<and>
   sensitivity (projr (DPNoise_init 1 (1 / 2) (- 2) 0)) = - 2 \<and>
   max_grad_norm (projr (DPNoise_init 1 (1 / 2) (- 2) 0)) = 0 \<and>
   sigma (projr (DPNoise_init 1 (1 / 2) (- 2) 0)) < 0"
  using dpnoise_init_checks_only_epsilon_delta [of 1 "1 / 2" "- 2" 0]
  by auto

text \<open>
  C3, as it stands, fails: with \<open>epsilon = 1\<close>, \<open>delta = 1e-5\<close>, \<open>sensitivity = 1\<close> the
  constructor succeeds and the stored \<open>sigma\<close> is not within \<open>1e-3\<close> of \<open>4.823\<close>.
\<close>

theorem dpnoise_sigma_default_not_4823:
  "\<not> isl (DPNoise_init 1 (1 / 100000) 1 1) \<and>
   \<not> \<bar>sigma (projr (DPNoise_init 1 (1 / 100000) 1 1)) - 4823 / 1000\<bar> \<le> 1 / 1000"
  using sigma_default_bounds(1) by (simp add: DPNoise_init_default)

text \<open>
  C3, amended. With \<open>epsilon = 1\<close>, \<open>delta = 1e-5\<close>, \<open>sensitivity = 1\<close> the constructor
  succeeds and stores \<open>sigma = sensitivity * sqrt (2 * ln (1.25 / delta)) / epsilon\<close>,
  a value within \<open>1e-3\<close> of \<open>4.845\<close>.
\<close>

theorem dpnoise_sigma_default:
  "\<exists>D. DPNoise_init 1 (1 / 100000) 1 m = Inr D \<and>
       sigma D = 1 * sqrt (2 * ln (125 / 100 / (1 / 100000))) / 1 \<and>
       \<bar>sigma D - 4845 / 1000\<bar> < 1 / 1000"
proof -
  have "\<bar>sqrt (2 * ln (125000::real)) - 4845 / 1000\<bar> < 1 / 1000"
    using sigma_default_bounds by linarith
  then show ?thesis by (simp add: DPNoise_init_default)
qed

subsection \<open>Privacy accounting\<close>

lemma round_half_even_bounds:
  "\<lfloor>s\<rfloor> \<le> round_half_even s \<and> round_half_even s \<le> \<lfloor>s\<rfloor> + 1"
  by (simp add: round_half_even_def Let_def)

lemma round_half_even_mono:
  assumes "s \<le> s'"
  shows "round_half_even s \<le> round_half_even s'"
proof (cases "\<lfloor>s\<rfloor> = \<lfloor>s'\<rfloor>")
  case True
  then show ?thesis using assms
    by (auto simp add: round_half_even_def Let_def)
next
  case False
  then have "\<lfloor>s\<rfloor> < \<lfloor>s'\<rfloor>" using assms floor_mono [of s s'] by linarith
  then show ?thesis
    using round_half_even_bounds [of s] round_half_even_bounds [of s'] by linarith
qed

lemma py_round_mono: "x \<le> y \<Longrightarrow> py_round x n \<le> py_round y n"
  by (simp add: py_round_def divide_right_mono round_half_even_mono mult_right_mono)

lemma max_float_pos: "0 < max_float"
  by (simp add: max_float_def)

lemma to_float_nonneg: "0 \<le> x \<Longrightarrow> to_float x = (if x > max_float then PInf else Fin x)"
  using max_float_pos by (simp add: to_float_def)

lemma eps_total_raw_in_range:
  assumes e: "0 < e" "exp e \<le> max_float"
    and d: "0 < d" "d < 1" "1 / d \<le> max_float"
    and T: "0 \<le> T" "real_of_int T \<le> max_float"
  shows "eps_total_raw e d T =
     Inr (if eps_total_overflows e (ln (1 / d)) (real_of_int T) then PInf
          else Fin (eps_total_formula e (ln (1 / d)) (real_of_int T)))"
proof -
  define t where "t = real_of_int T"
  define L where "L = ln (1 / d)"
  define k where "k = exp e - 1"
  have t0: "0 \<le> t" using T(1) by (simp add: t_def)
  have "1 < 1 / d" using d by simp
  then have L0: "0 < L" unfolding L_def by (rule ln_gt_zero)
  have k0: "0 < k" using e(1) by (simp add: k_def)
  have kM: "k \<le> max_float" using e(2) by (simp add: k_def)
  have s0: "0 \<le> sqrt (2 * t * L)" using t0 L0 by simp
  have b0: "\<not> 2 * t * L < 0" using t0 L0 by (simp add: not_less)
  have conv: "int_to_float T = Inr (Fin t)"
    using T by (simp add: int_to_float_def t_def)
  have q: "float_truediv 1 d = Inr (Fin (1 / d))"
    using d by (simp add: float_truediv_def to_float_nonneg)
  have l: "float_log (Fin (1 / d)) = Inr (Fin L)"
    using d by (simp add: L_def)
  have A: "float_mul (Fin 2) (Fin t) = (if 2 * t > max_float then PInf else Fin (2 * t))"
    using t0 by (simp add: to_float_nonneg)
  have B: "float_mul (float_mul (Fin 2) (Fin t)) (Fin L)
      = (if 2 * t > max_float \<or> 2 * t * L > max_float then PInf else Fin (2 * t * L))"
    unfolding A using t0 L0 by (simp add: to_float_nonneg)
  have r: "float_sqrt (float_mul (float_mul (Fin 2) (Fin t)) (Fin L))
      = Inr (if 2 * t > max_float \<or> 2 * t * L > max_float then PInf else Fin (sqrt (2 * t * L)))"
    unfolding B using b0 by (simp add: not_less [symmetric] del: not_less)
  have C: "float_mul (Fin e)
        (if 2 * t > max_float \<or> 2 * t * L > max_float then PInf else Fin (sqrt (2 * t * L)))
      = (if 2 * t > max_float \<or> 2 * t * L > max_float \<or> e * sqrt (2 * t * L) > max_float
         then PInf else Fin (e * sqrt (2 * t * L)))"
    using e(1) s0 by (simp add: to_float_nonneg)
  have ex: "float_exp e = Inr (Fin (exp e))"
    using e(2) by (simp add: float_exp_def)
  have K: "float_sub (Fin (exp e)) (Fin 1) = Fin k"
    using k0 kM by (simp add: float_sub_def to_float_nonneg k_def)
  have Dd: "float_mul (Fin t) (Fin e) = (if t * e > max_float then PInf else Fin (t * e))"
    using t0 e(1) by (simp add: to_float_nonneg)
  have E: "float_mul (float_mul (Fin t) (Fin e)) (Fin k)
      = (if t * e > max_float \<or> t * e * k > max_float then PInf else Fin (t * e * k))"
    unfolding Dd using t0 e(1) k0 by (simp add: to_float_nonneg)
  have n1: "0 \<le> e * sqrt (2 * t * L)" using e(1) s0 by simp
  have n2: "0 \<le> t * e * k" using t0 e(1) k0 by simp
  have S: "float_add
        (if 2 * t > max_float \<or> 2 * t * L > max_float \<or> e * sqrt (2 * t * L) > max_float
         then PInf else Fin (e * sqrt (2 * t * L)))
        (if t * e > max_float \<or> t * e * k > max_float then PInf else Fin (t * e * k))
      = (if eps_total_overflows e L t then PInf else Fin (eps_total_formula e L t))"
    using n1 n2
    by (simp add: eps_total_overflows_def eps_total_formula_def to_float_nonneg k_def [symmetric])
  have "eps_total_raw e d T
      = Inr (if eps_total_overflows e L t then PInf else Fin (eps_total_formula e L t))"
    by (simp only: eps_total_raw_def conv q l r ex and_then_Inr C K E S)
  then show ?thesis by (simp only: t_def L_def)
qed

lemma eps_total_parts_mono:
  assumes "0 < e" "0 < L" "0 \<le> t1" "t1 \<le> (t2::real)"
  shows "2 * t1 \<le> 2 * t2" "2 * t1 * L \<le> 2 * t2 * L"
    "e * sqrt (2 * t1 * L) \<le> e * sqrt (2 * t2 * L)"
    "t1 * e \<le> t2 * e" "t1 * e * (exp e - 1) \<le> t2 * e * (exp e - 1)"
proof -
  show a: "2 * t1 \<le> 2 * t2" using assms by simp
  show b: "2 * t1 * L \<le> 2 * t2 * L" using a assms(2) by (simp add: mult_right_mono)
  then have "sqrt (2 * t1 * L) \<le> sqrt (2 * t2 * L)" by (rule real_sqrt_le_mono)
  then show "e * sqrt (2 * t1 * L) \<le> e * sqrt (2 * t2 * L)"
    using assms(1) by (simp add: mult_left_mono)
  show d: "t1 * e \<le> t2 * e" using assms by (simp add: mult_right_mono)
  have "0 \<le> exp e - 1" using assms(1) by simp
  then show "t1 * e * (exp e - 1) \<le> t2 * e * (exp e - 1)"
    using d by (rule mult_right_mono [rotated])
qed

lemma eps_total_overflows_mono:
  assumes "0 < e" "0 < L" "0 \<le> t1" "t1 \<le> t2" "eps_total_overflows e L t1"
  shows "eps_total_overflows e L t2"
  using eps_total_parts_mono [OF assms(1-4)] assms(5)
  unfolding eps_total_overflows_def by linarith

lemma eps_total_formula_mono_real:
  assumes "0 < e" "0 < L" "0 \<le> t1" "t1 \<le> t2"
  shows "eps_total_formula e L t1 \<le> eps_total_formula e L t2"
  using eps_total_parts_mono [OF assms]
  unfolding eps_total_formula_def by linarith

lemma get_privacy_spent_in_range:
  assumes e: "0 < epsilon D" "exp (epsilon D) \<le> max_float"
    and d: "0 < delta D" "delta D < 1" "1 / delta D \<le> max_float"
    and T: "0 \<le> T" "real_of_int T \<le> max_float"
  shows "\<exists>r. get_privacy_spent D T = Inr r \<and>
     epsilon_total r =
       (if eps_total_overflows (epsilon D) (ln (1 / delta D)) (real_of_int T) then PInf
        else Fin (py_round (eps_total_formula (epsilon D) (ln (1 / delta D)) (real_of_int T)) 6))"
proof -
  have conv: "int_to_float T = Inr (Fin (real_of_int T))"
    using T by (simp add: int_to_float_def)
  show ?thesis
    by (simp add: get_privacy_spent_def eps_total_raw_in_range [OF e d T] conv)
qed

lemma exp_1_in_range: "exp (1::real) \<le> max_float"
proof -
  have "exp (1::real) \<le> 3" by (rule exp_le)
  also have "\<dots> \<le> max_float" by (simp add: max_float_def)
  finally show ?thesis .
qed

lemma exp_710_overflows: "max_float < exp (710::real)"
proof -
  have "real 1024 * ln 2 \<le> 1024 * (6932 / 10000)"
    using ln2_upper by simp
  also have "\<dots> \<le> (710::real)" by simp
  finally have "exp (real 1024 * ln 2) \<le> exp (710::real)" by simp
  moreover have "exp (real 1024 * ln 2) = (2::real) ^ 1024"
    by (simp only: exp_of_nat_mult) simp
  moreover have "max_float < (2::real) ^ 1024" by (simp add: max_float_def)
  ultimately show ?thesis by linarith
qed

lemma float_sqrt_to_float_nonneg: "0 \<le> x \<Longrightarrow> \<exists>y. float_sqrt (to_float x) = Inr y"
  by (simp add: to_float_nonneg)

lemma privacy_spent_exp_overflow:
  assumes "epsilon D = 710" "delta D = 1 / 2"
  shows "get_privacy_spent D 1 = Inl OverflowError"
proof -
  have one: "(1::real) \<le> max_float" "(2::real) \<le> max_float" by (simp_all add: max_float_def)
  have conv: "int_to_float 1 = Inr (Fin 1)" using one by (simp add: int_to_float_def)
  have q: "float_truediv 1 (1 / 2) = Inr (Fin 2)"
    using one by (simp add: float_truediv_def to_float_nonneg)
  have l: "float_log (Fin 2) = Inr (Fin (ln 2))" by simp
  have m: "float_mul (float_mul (Fin 2) (Fin 1)) (Fin (ln 2)) = to_float (2 * ln 2)"
    using one by (simp add: to_float_nonneg)
  obtain y where r: "float_sqrt (to_float (2 * ln 2)) = Inr y"
    using float_sqrt_to_float_nonneg [of "2 * ln 2"] by auto
  have ex: "float_exp 710 = Inl OverflowError"
    using exp_710_overflows by (simp add: float_exp_def)
  have "eps_total_raw 710 (1 / 2) 1 = Inl OverflowError"
    by (simp only: eps_total_raw_def conv q l m r ex and_then_Inr and_then_Inl)
  then show ?thesis by (simp add: get_privacy_spent_def assms)
qed

lemma privacy_spent_int_overflow: "get_privacy_spent D (10 ^ 400) = Inl OverflowError"
proof -
  have "int_to_float (10 ^ 400) = Inl OverflowError"
    by (simp add: int_to_float_def max_float_def)
  then show ?thesis by (simp add: get_privacy_spent_def eps_total_raw_def)
qed

lemma privacy_spent_tiny_delta:
  assumes "epsilon D = 1" "0 < delta D" "max_float < 1 / delta D"
  shows "\<exists>r0 r1. get_privacy_spent D 0 = Inr r0 \<and> epsilon_total r0 = NaN \<and>
                 get_privacy_spent D 1 = Inr r1 \<and> epsilon_total r1 = PInf"
proof -
  define d where "d = delta D"
  have M: "0 < max_float" "(1::real) \<le> max_float" "(2::real) \<le> max_float"
    by (simp_all add: max_float_def)
  have c0: "int_to_float 0 = Inr (Fin 0)" using M by (simp add: int_to_float_def)
  have c1: "int_to_float 1 = Inr (Fin 1)" using M by (simp add: int_to_float_def)
  have q: "float_truediv 1 d = Inr PInf"
    using assms(2,3) by (simp add: float_truediv_def to_float_def d_def)
  have ex: "float_exp 1 = Inr (Fin (exp 1))"
    using exp_1_in_range by (simp add: float_exp_def)
  have k: "float_sub (Fin (exp 1)) (Fin 1) = Fin (exp 1 - 1)"
    using exp_1_in_range by (simp add: float_sub_def to_float_nonneg)
  have z: "to_float 0 = Fin 0" "to_float 1 = Fin 1" "to_float 2 = Fin 2"
    using M by (simp_all add: to_float_nonneg)
  have k1: "to_float (exp 1 - 1) = Fin (exp 1 - 1)"
    using exp_1_in_range by (simp add: to_float_nonneg)
  have e0: "eps_total_raw 1 d 0 = Inr NaN"
    by (simp add: eps_total_raw_def c0 q ex k z)
  have e1: "eps_total_raw 1 d 1 = Inr PInf"
    by (simp add: eps_total_raw_def c1 q ex k z k1)
  show ?thesis
    by (simp add: get_privacy_spent_def assms(1) d_def [symmetric] e0 e1 c0 c1)
qed


lemma epsilon_total_mono_delta_in_range:
  assumes e: "0 < epsilon D" "exp (epsilon D) \<le> max_float"
    and d: "0 < delta D" "delta D < 1" "1 / delta D \<le> max_float"
    and T: "0 \<le> T1" "T1 \<le> T2" "real_of_int T2 \<le> max_float"
  shows "\<exists>r1 r2. get_privacy_spent D T1 = Inr r1 \<and> get_privacy_spent D T2 = Inr r2 \<and>
     float_le (epsilon_total r1) (epsilon_total r2) \<and>
     (\<forall>v. epsilon_total r2 = Fin v \<longrightarrow>
        v = py_round (epsilon D * sqrt (2 * real_of_int T2 * ln (1 / delta D))
              + real_of_int T2 * epsilon D * (exp (epsilon D) - 1)) 6 \<and>
        epsilon_total r1 =
          Fin (py_round (epsilon D * sqrt (2 * real_of_int T1 * ln (1 / delta D))
                 + real_of_int T1 * epsilon D * (exp (epsilon D) - 1)) 6))"
proof -
  let ?L = "ln (1 / delta D)"
  let ?t1 = "real_of_int T1" and ?t2 = "real_of_int T2"
  have T1: "0 \<le> T1" "?t1 \<le> max_float" using T by simp_all
  have T2: "0 \<le> T2" "?t2 \<le> max_float" using T by simp_all
  have "1 < 1 / delta D" using d by simp
  then have L0: "0 < ?L" by (rule ln_gt_zero)
  have t: "0 \<le> ?t1" "?t1 \<le> ?t2" using T by simp_all
  obtain r1 where r1: "get_privacy_spent D T1 = Inr r1"
    "epsilon_total r1 = (if eps_total_overflows (epsilon D) ?L ?t1 then PInf
        else Fin (py_round (eps_total_formula (epsilon D) ?L ?t1) 6))"
    using get_privacy_spent_in_range [OF e d T1] by blast
  obtain r2 where r2: "get_privacy_spent D T2 = Inr r2"
    "epsilon_total r2 = (if eps_total_overflows (epsilon D) ?L ?t2 then PInf
        else Fin (py_round (eps_total_formula (epsilon D) ?L ?t2) 6))"
    using get_privacy_spent_in_range [OF e d T2] by blast
  have le: "float_le (epsilon_total r1) (epsilon_total r2)"
  proof (cases "eps_total_overflows (epsilon D) ?L ?t2")
    case True
    then show ?thesis by (simp add: r1(2) r2(2))
  next
    case False
    then have n1: "\<not> eps_total_overflows (epsilon D) ?L ?t1"
      using eps_total_overflows_mono [OF e(1) L0 t] by blast
    have "py_round (eps_total_formula (epsilon D) ?L ?t1) 6
        \<le> py_round (eps_total_formula (epsilon D) ?L ?t2) 6"
      by (intro py_round_mono eps_total_formula_mono_real e(1) L0 t)
    then show ?thesis using False n1 by (simp add: r1(2) r2(2))
  qed
  have fin: "\<forall>v. epsilon_total r2 = Fin v \<longrightarrow>
        v = py_round (epsilon D * sqrt (2 * ?t2 * ?L) + ?t2 * epsilon D * (exp (epsilon D) - 1)) 6 \<and>
        epsilon_total r1 =
          Fin (py_round (epsilon D * sqrt (2 * ?t1 * ?L) + ?t1 * epsilon D * (exp (epsilon D) - 1)) 6)"
  proof (intro allI impI)
    fix v assume v: "epsilon_total r2 = Fin v"
    then have n2: "\<not> eps_total_overflows (epsilon D) ?L ?t2"
      using r2(2) by (auto split: if_splits)
    then have n1: "\<not> eps_total_overflows (epsilon D) ?L ?t1"
      using eps_total_overflows_mono [OF e(1) L0 t] by blast
    show "v = py_round (epsilon D * sqrt (2 * ?t2 * ?L) + ?t2 * epsilon D * (exp (epsilon D) - 1)) 6 \<and>
        epsilon_total r1 =
          Fin (py_round (epsilon D * sqrt (2 * ?t1 * ?L) + ?t1 * epsilon D * (exp (epsilon D) - 1)) 6)"
      using v n1 n2 r1(2) r2(2) by (simp add: eps_total_formula_def)
  qed
  show ?thesis using r1(1) r2(1) le fin by blast
qed

lemma get_privacy_spent_inf_delta:
  assumes e: "0 < epsilon D" "exp (epsilon D) \<le> max_float"
    and d: "0 < delta D" "max_float < 1 / delta D"
    and T: "1 \<le> T" "real_of_int T \<le> max_float"
  shows "\<exists>r. get_privacy_spent D T = Inr r \<and> epsilon_total r = PInf"
proof -
  define t where "t = real_of_int T"
  define k where "k = exp (epsilon D) - 1"
  define ep where "ep = epsilon D"
  have t1: "1 \<le> t" using T(1) by (simp add: t_def)
  have k0: "0 < k" using e(1) by (simp add: k_def)
  have kM: "k \<le> max_float" using e(2) by (simp add: k_def)
  have ep0: "0 < ep" using e(1) by (simp add: ep_def)
  have conv: "int_to_float T = Inr (Fin t)"
    using T by (simp add: int_to_float_def t_def)
  have q: "float_truediv 1 (delta D) = Inr PInf"
    using d by (simp add: float_truediv_def to_float_def)
  have l: "float_log PInf = Inr PInf" by simp
  have A: "float_mul (float_mul (Fin 2) (Fin t)) PInf = PInf"
    using t1 by (simp add: to_float_nonneg)
  have r: "float_sqrt PInf = Inr PInf" by simp
  have C: "float_mul (Fin ep) PInf = PInf" using ep0 by simp
  have ex: "float_exp ep = Inr (Fin (exp ep))"
    using e(2) by (simp add: float_exp_def ep_def)
  have K: "float_sub (Fin (exp ep)) (Fin 1) = Fin k"
    using k0 kM by (simp add: float_sub_def to_float_nonneg k_def ep_def)
  have n: "0 \<le> t * ep" "0 \<le> t * ep * k" using t1 ep0 k0 by simp_all
  have E: "float_add PInf (float_mul (float_mul (Fin t) (Fin ep)) (Fin k)) = PInf"
    using n k0 by (simp add: to_float_nonneg)
  have "eps_total_raw ep (delta D) T = Inr PInf"
    by (simp only: eps_total_raw_def conv q l A r C ex K E and_then_Inr)
  then show ?thesis
    by (simp add: get_privacy_spent_def conv ep_def)
qed



subsection \<open>Flatten and unflatten\<close>

lemma dict_get_mem:
  "distinct (map fst sd) \<Longrightarrow> (k, t) \<in> set sd \<Longrightarrow> dict_get sd k = Inr t"
  by (simp add: dict_get_def)

lemma flatten_parts_own_keys:
  assumes "distinct (map fst sd)" "set kvs \<subseteq> set sd"
  shows "flatten_parts sd (map fst kvs) = Inr (map (\<lambda>kv. data (snd kv)) kvs)"
  using assms(2)
proof (induction kvs)
  case Nil
  then show ?case by simp
next
  case (Cons kv kvs)
  obtain k t where kv: "kv = (k, t)" by (cases kv)
  with Cons.prems have "(k, t) \<in> set sd" by simp
  then have "dict_get sd k = Inr t" using assms(1) by (rule dict_get_mem [rotated])
  then show ?case using Cons kv by simp
qed

lemma dict_set_fresh:
  "k \<notin> fst ` set d \<Longrightarrow> dict_set d k v = d @ [(k, v)]"
  by (induction d) auto

lemma unflatten_loop_suffix:
  assumes "distinct (map fst (pre @ suf))" "list_all (\<lambda>kv. wf_tensor (snd kv)) suf"
  shows "unflatten_loop (concat (map (\<lambda>kv. data (snd kv)) (pre @ suf)))
           (length (concat (map (\<lambda>kv. data (snd kv)) pre)))
           (zip (map fst suf) (zip (map (\<lambda>kv. shape (snd kv)) suf) (map (\<lambda>kv. numel (snd kv)) suf)))
           pre
         = Inr (pre @ suf)"
  using assms
proof (induction suf arbitrary: pre)
  case Nil
  then show ?case by simp
next
  case (Cons kv suf)
  obtain k t where kv: "kv = (k, t)" by (cases kv)
  have wf: "length (data t) = prod_list (shape t)"
    using Cons.prems(2) kv by (simp add: wf_tensor_def)
  have n: "numel t = length (data t)" using wf by (simp add: numel_def)
  have rs: "reshape (data t) (shape t) = Inr t"
    using wf by (simp add: reshape_def)
  have fresh: "k \<notin> fst ` set pre" using Cons.prems(1) kv by auto
  have d: "distinct (map fst ((pre @ [kv]) @ suf))" using Cons.prems(1) by simp
  have w: "list_all (\<lambda>kv. wf_tensor (snd kv)) suf" using Cons.prems(2) by simp
  have "unflatten_loop (concat (map (\<lambda>kv. data (snd kv)) ((pre @ [kv]) @ suf)))
           (length (concat (map (\<lambda>kv. data (snd kv)) (pre @ [kv]))))
           (zip (map fst suf) (zip (map (\<lambda>kv. shape (snd kv)) suf) (map (\<lambda>kv. numel (snd kv)) suf)))
           (pre @ [kv])
         = Inr ((pre @ [kv]) @ suf)"
    by (rule Cons.IH [OF d w])
  then show ?case
    by (simp add: kv n rs dict_set_fresh [OF fresh])
qed

lemma flatten_unflatten_nonempty:
  assumes "T \<noteq> []" "wf_state_dict T"
  shows "flatten_unflatten T = Inr T"
proof -
  have d: "distinct (map fst T)" and w: "list_all (\<lambda>kv. wf_tensor (snd kv)) T"
    using assms(2) by (simp_all add: wf_state_dict_def)
  have f: "flatten_state_dict T (map fst T) = Inr (concat (map (\<lambda>kv. data (snd kv)) T))"
    using assms(1) flatten_parts_own_keys [OF d subset_refl]
    by (simp add: flatten_state_dict_def dict_keys_def np_concatenate_def)
  show ?thesis
    using unflatten_loop_suffix [of "[]" T] d w
    by (simp add: flatten_unflatten_def f unflatten_to_state_dict_def dict_keys_def)
qed

text \<open>
  C5, as it stands, fails: the empty map is a named-tensor map, and flattening it raises
  \<open>ValueError\<close> (\<open>np.concatenate\<close> of no arrays), so nothing is reproduced.
\<close>

theorem flatten_unflatten_empty_raises:
  "flatten_unflatten ([] :: real state_dict) = Inl ValueError"
  by (simp add: flatten_unflatten_def flatten_state_dict_def dict_keys_def np_concatenate_def)

text \<open>
  C5, amended. For every non-empty named-tensor map \<open>T\<close> (distinct keys, every tensor
  holding as many elements as its shape says), unflattening the flattened vector with
  \<open>T\<close>'s key list, shapes and element counts reproduces \<open>T\<close> exactly: the same keys in
  the same order, the same shapes, equal elements.
\<close>

theorem flatten_unflatten_roundtrip:
  "T \<noteq> [] \<Longrightarrow> wf_state_dict T \<Longrightarrow> flatten_unflatten T = Inr T"
  by (rule flatten_unflatten_nonempty)

theorem flatten_unflatten_roundtrip_witness:
  "flatten_unflatten
     [(''layer1.weight'', \<lparr>shape = [2, 2], data = [1, 2, 3, 4 :: real]\<rparr>),
      (''layer2.bias'', \<lparr>shape = [2], data = [5, 6]\<rparr>)]
   = Inr [(''layer1.weight'', \<lparr>shape = [2, 2], data = [1, 2, 3, 4]\<rparr>),
          (''layer2.bias'', \<lparr>shape = [2], data = [5, 6]\<rparr>)]"
  using flatten_unflatten_roundtrip
    [of "[(''layer1.weight'', \<lparr>shape = [2, 2], data = [1, 2, 3, 4 :: real]\<rparr>),
          (''layer2.bias'', \<lparr>shape = [2], data = [5, 6]\<rparr>)]"]
  by (simp add: wf_state_dict_def wf_tensor_def)

subsection \<open>Selective HE: decrypting a head\<close>

lemma decrypt_head_loop_ok:
  assumes "distinct (map fst acc @ map fst enc)"
    and "\<forall>(k, c) \<in> set enc. \<exists>shp. map_of (shapes self) k = Some shp \<and> prod_list shp \<le> length (ckks_decrypt self c)"
  shows "decrypt_head_loop self enc acc = Inr (acc @ map (he_expected self) enc)"
  using assms
proof (induction enc arbitrary: acc)
  case Nil
  then show ?case by simp
next
  case (Cons kc enc)
  obtain k c where kc: "kc = (k, c)" by (cases kc)
  obtain shp where shp: "map_of (shapes self) k = Some shp" "prod_list shp \<le> length (ckks_decrypt self c)"
    using Cons.prems(2) kc by auto
  have dt: "decrypt_tensor self c shp = Inr \<lparr>shape = shp, data = take (prod_list shp) (ckks_decrypt self c)\<rparr>"
    using shp(2) by (simp add: decrypt_tensor_def reshape_def)
  have fresh: "k \<notin> fst ` set acc" using Cons.prems(1) kc by auto
  have d: "distinct (map fst (acc @ [(k, \<lparr>shape = shp, data = take (prod_list shp) (ckks_decrypt self c)\<rparr>)]) @ map fst enc)"
    using Cons.prems(1) kc by auto
  have r: "\<forall>(k, c) \<in> set enc. \<exists>shp. map_of (shapes self) k = Some shp \<and> prod_list shp \<le> length (ckks_decrypt self c)"
    using Cons.prems(2) by simp
  show ?case
    using Cons.IH [OF d r] shp(1)
    by (simp add: kc dt dict_set_fresh [OF fresh] he_expected_def)
qed

lemma decrypt_head_loop_missing:
  assumes "\<forall>(k, c) \<in> set enc. \<forall>shp. map_of (shapes self) k = Some shp \<longrightarrow> prod_list shp \<le> length (ckks_decrypt self c)"
    and "\<exists>(k, c) \<in> set enc. map_of (shapes self) k = None"
  shows "decrypt_head_loop self enc acc = Inl ValueError"
  using assms
proof (induction enc arbitrary: acc)
  case Nil
  then show ?case by simp
next
  case (Cons kc enc)
  obtain k c where kc: "kc = (k, c)" by (cases kc)
  show ?case
  proof (cases "map_of (shapes self) k")
    case None
    then show ?thesis by (simp add: kc)
  next
    case (Some shp)
    then have "prod_list shp \<le> length (ckks_decrypt self c)" using Cons.prems(1) kc by simp
    then have dt: "decrypt_tensor self c shp = Inr \<lparr>shape = shp, data = take (prod_list shp) (ckks_decrypt self c)\<rparr>"
      by (simp add: decrypt_tensor_def reshape_def)
    have "\<exists>(k, c) \<in> set enc. map_of (shapes self) k = None"
      using Cons.prems(2) Some kc by auto
    moreover have "\<forall>(k, c) \<in> set enc. \<forall>shp. map_of (shapes self) k = Some shp \<longrightarrow> prod_list shp \<le> length (ckks_decrypt self c)"
      using Cons.prems(1) by simp
    ultimately show ?thesis using Cons.IH Some by (simp add: kc dt)
  qed
qed

lemma map_of_he_expected:
  assumes "distinct (map fst enc)" "(k, c) \<in> set enc"
  shows "map_of (map (he_expected self) enc) k = Some (snd (he_expected self (k, c)))"
proof -
  have "distinct (map fst (map (he_expected self) enc))"
    using assms(1) by (simp add: comp_def he_expected_def)
  moreover have "(k, snd (he_expected self (k, c))) \<in> set (map (he_expected self) enc)"
    using assms(2) by (force simp add: he_expected_def)
  ultimately show ?thesis by simp
qed

text \<open>
  C9, as it stands, fails: with the only key registered under shape \<open>(4)\<close> and a
  ciphertext of this context that decrypts to two slots, \<open>decrypt_head\<close> neither
  returns a tensor of the registered shape nor raises the missing-shape error; the
  reshape raises.
\<close>

theorem decrypt_head_short_ciphertext_raises:
  "decrypt_head \<lparr>ckks_decrypt = \<lambda>c. c, shapes = [(''classifier.bias'', [4])]\<rparr>
     [(''classifier.bias'', [1, 2])] = Inl RuntimeError"
  by (simp add: decrypt_head_def decrypt_tensor_def reshape_def)

text \<open>
  C9, amended. Let every ciphertext of \<open>cipher_map\<close> whose key is registered decrypt to
  at least as many slots as the product of the registered shape. Then \<open>decrypt_head\<close>
  raises the missing-shape \<open>ValueError\<close> if and only if some key of \<open>cipher_map\<close> has
  no shape in the registry; and when every key is registered it returns a dict with the
  input's keys in the input's order whose entry for each key is a tensor of exactly the
  registered shape, holding the first \<open>product(shape)\<close> decrypted slots.
\<close>

theorem decrypt_head_missing_shape_iff:
  assumes d: "distinct (map fst enc)"
    and s: "\<forall>(k, c) \<in> set enc. \<forall>shp. map_of (shapes self) k = Some shp \<longrightarrow>
              prod_list shp \<le> length (ckks_decrypt self c)"
  shows "(decrypt_head self enc = Inl ValueError)
           = (\<exists>k \<in> fst ` set enc. map_of (shapes self) k = None) \<and>
         ((\<forall>k \<in> fst ` set enc. map_of (shapes self) k \<noteq> None) \<longrightarrow>
          (\<exists>out. decrypt_head self enc = Inr out \<and> map fst out = map fst enc \<and>
             (\<forall>(k, c) \<in> set enc. \<exists>shp. map_of (shapes self) k = Some shp \<and>
                map_of out k
                  = Some \<lparr>shape = shp, data = take (prod_list shp) (ckks_decrypt self c)\<rparr>)))"
proof (cases "\<exists>k \<in> fst ` set enc. map_of (shapes self) k = None")
  case True
  then have "\<exists>(k, c) \<in> set enc. map_of (shapes self) k = None" by auto
  from decrypt_head_loop_missing [OF s this]
  have "decrypt_head self enc = Inl ValueError" by (simp add: decrypt_head_def)
  then show ?thesis using True by auto
next
  case False
  then have reg: "\<forall>(k, c) \<in> set enc. \<exists>shp. map_of (shapes self) k = Some shp \<and>
      prod_list shp \<le> length (ckks_decrypt self c)"
    using s by force
  have "distinct (map fst ([] :: real state_dict) @ map fst enc)" using d by simp
  from decrypt_head_loop_ok [OF this reg]
  have out: "decrypt_head self enc = Inr (map (he_expected self) enc)"
    by (simp add: decrypt_head_def)
  have keys: "map fst (map (he_expected self) enc) = map fst enc"
    by (simp add: comp_def he_expected_def)
  have vals: "\<forall>(k, c) \<in> set enc. \<exists>shp. map_of (shapes self) k = Some shp \<and>
      map_of (map (he_expected self) enc) k
        = Some \<lparr>shape = shp, data = take (prod_list shp) (ckks_decrypt self c)\<rparr>"
  proof (clarify)
    fix k c assume kc: "(k, c) \<in> set enc"
    then obtain shp where "map_of (shapes self) k = Some shp" using reg by auto
    then show "\<exists>shp. map_of (shapes self) k = Some shp \<and>
      map_of (map (he_expected self) enc) k
        = Some \<lparr>shape = shp, data = take (prod_list shp) (ckks_decrypt self c)\<rparr>"
      using map_of_he_expected [OF d kc, of self] by (simp add: he_expected_def)
  qed
  show ?thesis using False out keys vals by simp
qed

theorem decrypt_head_missing_shape_iff_witness:
  "(\<exists>out. decrypt_head \<lparr>ckks_decrypt = \<lambda>c. c, shapes = [(''classifier.bias'', [2])]\<rparr>
      [(''classifier.bias'', [1, 2, 0, 0])] = Inr out \<and>
      map_of out ''classifier.bias'' = Some \<lparr>shape = [2], data = [1, 2]\<rparr>) \<and>
   decrypt_head \<lparr>ckks_decrypt = \<lambda>c. c, shapes = [(''classifier.bias'', [2])]\<rparr>
     [(''classifier.bias'', [1, 2, 0, 0]), (''classifier.weight'', [1, 2, 3])] = Inl ValueError"
  using decrypt_head_missing_shape_iff
      [of "[(''classifier.bias'', [1, 2, 0, 0])]"
          "\<lparr>ckks_decrypt = \<lambda>c. c, shapes = [(''classifier.bias'', [2])]\<rparr>"]
    decrypt_head_missing_shape_iff
      [of "[(''classifier.bias'', [1, 2, 0, 0]), (''classifier.weight'', [1, 2, 3])]"
          "\<lparr>ckks_decrypt = \<lambda>c. c, shapes = [(''classifier.bias'', [2])]\<rparr>"]
  by auto

subsection \<open>The round upsert\<close>

lemma round_values_simps [simp]:
  "tr_id (round_values n j s c gl ga sa ca r) = tr_id r"
  "tr_round_number (round_values n j s c gl ga sa ca r) = n"
  "tr_status (round_values n j s c gl ga sa ca r) = Some s"
  "tr_num_clients (round_values n j s c gl ga sa ca r) = Some c"
  by (simp_all add: round_values_def)

lemma next_fault_rounds [simp]:
  "training_rounds (snd (next_fault db)) = training_rounds db"
  "training_rounds_seq (snd (next_fault db)) = training_rounds_seq db"
  by (simp_all add: next_fault_def split: list.splits)

lemma find_Some_mem: "find P xs = Some x \<Longrightarrow> x \<in> set xs \<and> P x"
  by (induction xs) (auto split: if_splits)

lemma count_key_one:
  assumes "distinct (map f xs)" "x \<in> set xs"
  shows "length (filter (\<lambda>r. f r = f x) xs) = 1"
  using assms
proof (induction xs)
  case Nil
  then show ?case by simp
next
  case (Cons a xs)
  show ?case
  proof (cases "a = x")
    case True
    have "f x \<notin> f ` set xs" using Cons.prems(1) True by simp
    then have "\<forall>r \<in> set xs. f r \<noteq> f x" by (metis imageI)
    then have "filter (\<lambda>r. f r = f x) xs = []"
      by (simp add: filter_empty_conv)
    then show ?thesis using True by simp
  next
    case False
    then have "x \<in> set xs" using Cons.prems(2) by simp
    moreover have "f a \<noteq> f x" using Cons.prems(1) \<open>x \<in> set xs\<close> by auto
    ultimately show ?thesis using Cons by simp
  qed
qed

lemma update_by_id_keys:
  assumes "distinct (map tr_id rows)" "e \<in> set rows" "tr_round_number e = n"
  shows "map tr_round_number (map (\<lambda>r. if tr_id r = tr_id e then round_values n j s c gl ga sa ca r else r) rows)
           = map tr_round_number rows"
proof -
  have "\<And>r. r \<in> set rows \<Longrightarrow> tr_id r = tr_id e \<Longrightarrow> r = e"
    using assms(1,2) by (meson distinct_map inj_onD)
  then show ?thesis using assms(3) by (auto simp add: comp_def)
qed

lemma update_by_id_ids:
  "map tr_id (map (\<lambda>r. if tr_id r = i then round_values n j s c gl ga sa ca r else r) rows)
     = map tr_id rows"
  by (induction rows) auto

text \<open>What a successful call leaves behind.\<close>

lemma write_round_success:
  assumes c: "consistent_rounds db"
    and w: "write_round db n j s cnt gl ga sa ca = (db', Some i)"
  shows "consistent_rounds db' \<and>
         (\<exists>r \<in> set (training_rounds db'). tr_round_number r = n \<and> tr_id r = i \<and>
              tr_status r = Some s \<and> tr_num_clients r = Some cnt) \<and>
         (case find (\<lambda>r. tr_round_number r = n) (training_rounds db) of
            Some e \<Rightarrow> i = tr_id e \<and> length (training_rounds db') = length (training_rounds db)
          | None \<Rightarrow> length (training_rounds db') = Suc (length (training_rounds db)))"
proof -
  obtain f db0 where nf: "next_fault db = (f, db0)" by (cases "next_fault db")
  have f: "\<not> f" using w nf by (auto simp add: write_round_def)
  have r0: "training_rounds db0 = training_rounds db" "training_rounds_seq db0 = training_rounds_seq db"
    using next_fault_rounds [of db] nf by simp_all
  have d: "distinct (map tr_id (training_rounds db))" "distinct (map tr_round_number (training_rounds db))"
    using c by (simp_all add: consistent_rounds_def)
  show ?thesis
  proof (cases "find (\<lambda>r. tr_round_number r = n) (training_rounds db)")
    case (Some e)
    have e: "e \<in> set (training_rounds db)" "tr_round_number e = n"
      using find_Some_mem [OF Some] by simp_all
    have db': "training_rounds db' = map (\<lambda>r. if tr_id r = tr_id e then round_values n j s cnt gl ga sa ca r else r) (training_rounds db)"
      and i: "i = tr_id e"
      using w nf f Some r0 by (auto simp add: write_round_def Let_def)
    have "round_values n j s cnt gl ga sa ca e \<in> set (training_rounds db')"
      using e(1) by (auto simp add: db' image_iff intro!: bexI [of _ e])
    then have "\<exists>r \<in> set (training_rounds db'). tr_round_number r = n \<and> tr_id r = i \<and>
              tr_status r = Some s \<and> tr_num_clients r = Some cnt"
      using i by (intro bexI [of _ "round_values n j s cnt gl ga sa ca e"]) simp_all
    moreover have "consistent_rounds db'"
      unfolding consistent_rounds_def db'
      using d by (simp only: update_by_id_ids update_by_id_keys [OF d(1) e] simp_thms)
    ultimately show ?thesis using Some i by (simp add: db')
  next
    case None
    have fresh: "training_rounds_seq db \<notin> tr_id ` set (training_rounds db)"
      using w nf f None r0 by (auto simp add: write_round_def Let_def split: if_splits)
    have db': "training_rounds db' = training_rounds db @ [round_values n j s cnt gl ga sa ca (empty_round_row (training_rounds_seq db))]"
      and i: "i = training_rounds_seq db"
      using w nf f None r0 by (auto simp add: write_round_def Let_def split: if_splits)
    have nn: "n \<notin> tr_round_number ` set (training_rounds db)"
      using None by (auto simp add: find_None_iff)
    have "consistent_rounds db'"
      using d fresh nn by (simp add: consistent_rounds_def db' empty_round_row_def)
    then show ?thesis using None i by (simp add: db' empty_round_row_def)
  qed
qed

lemma find_by_key:
  assumes "distinct (map f xs)" "x \<in> set xs"
  shows "find (\<lambda>r. f r = f x) xs = Some x"
  using assms by (induction xs) auto

text \<open>
  C8. On a table that satisfies the schema's constraints (distinct ids, distinct round
  numbers), two successful calls of \<open>write_round\<close> with the same \<open>round_number\<close>
  return the same primary key and leave exactly one row with that round number; the
  second call inserts nothing and the row carries the second call's values.
\<close>

theorem write_round_idempotent:
  assumes c: "consistent_rounds db"
    and w1: "write_round db n j1 s1 c1 gl1 ga1 sa1 ca1 = (db1, Some i1)"
    and w2: "write_round db1 n j2 s2 c2 gl2 ga2 sa2 ca2 = (db2, Some i2)"
  shows "i2 = i1 \<and>
         length (filter (\<lambda>r. tr_round_number r = n) (training_rounds db2)) = 1 \<and>
         length (training_rounds db2) = length (training_rounds db1) \<and>
         (\<exists>r \<in> set (training_rounds db2). tr_round_number r = n \<and> tr_id r = i1 \<and>
              tr_status r = Some s2 \<and> tr_num_clients r = Some c2)"
proof -
  from write_round_success [OF c w1]
  have c1: "consistent_rounds db1"
    and r1: "\<exists>r \<in> set (training_rounds db1). tr_round_number r = n \<and> tr_id r = i1"
    by auto
  then obtain e where e: "e \<in> set (training_rounds db1)" "tr_round_number e = n" "tr_id e = i1"
    by auto
  have "distinct (map tr_round_number (training_rounds db1))"
    using c1 by (simp add: consistent_rounds_def)
  from find_by_key [OF this e(1)]
  have fe: "find (\<lambda>r. tr_round_number r = n) (training_rounds db1) = Some e"
    using e(2) by simp
  from write_round_success [OF c1 w2] fe e(3)
  have c2: "consistent_rounds db2"
    and r2: "\<exists>r \<in> set (training_rounds db2). tr_round_number r = n \<and> tr_id r = i2 \<and>
              tr_status r = Some s2 \<and> tr_num_clients r = Some c2"
    and i: "i2 = i1" and len: "length (training_rounds db2) = length (training_rounds db1)"
    by auto
  obtain r where r: "r \<in> set (training_rounds db2)" "tr_round_number r = n"
    using r2 by auto
  have "distinct (map tr_round_number (training_rounds db2))"
    using c2 by (simp add: consistent_rounds_def)
  from count_key_one [OF this r(1)]
  have "length (filter (\<lambda>r. tr_round_number r = n) (training_rounds db2)) = 1"
    using r(2) by simp
  then show ?thesis using i len r2 by auto
qed


theorem write_round_idempotent_witness:
  "consistent_rounds empty_database \<and>
   snd (write_round empty_database 1 None ''in_progress'' 3 None None (Some 0) None) = Some 1 \<and>
   snd (write_round
          (fst (write_round empty_database 1 None ''in_progress'' 3 None None (Some 0) None))
          1 None ''failed'' 2 None None None None) = Some 1 \<and>
   length (filter (\<lambda>r. tr_round_number r = 1)
     (training_rounds (fst (write_round
          (fst (write_round empty_database 1 None ''in_progress'' 3 None None (Some 0) None))
          1 None ''failed'' 2 None None None None)))) = 1"
proof -
  let ?db1 = "fst (write_round empty_database 1 None ''in_progress'' 3 None None (Some 0) None)"
  let ?db2 = "fst (write_round ?db1 1 None ''failed'' 2 None None None None)"
  have c: "consistent_rounds empty_database"
    by (simp add: consistent_rounds_def empty_database_def)
  have w1: "write_round empty_database 1 None ''in_progress'' 3 None None (Some 0) None
              = (?db1, Some 1)"
    by (simp add: write_round_def empty_database_def next_fault_def Let_def)
  have w2: "write_round ?db1 1 None ''failed'' 2 None None None None = (?db2, Some 1)"
    by (simp add: write_round_def empty_database_def next_fault_def Let_def round_values_def
        empty_round_row_def)
  have s1: "snd (write_round empty_database 1 None ''in_progress'' 3 None None (Some 0) None)
              = Some 1"
    by (simp add: write_round_def empty_database_def next_fault_def Let_def)
  have s2: "snd (write_round ?db1 1 None ''failed'' 2 None None None None) = Some 1"
    by (simp add: write_round_def empty_database_def next_fault_def Let_def round_values_def
        empty_round_row_def)
  have "length (filter (\<lambda>r. tr_round_number r = 1) (training_rounds ?db2)) = 1"
    using write_round_idempotent [OF c w1 w2] by blast
  then show ?thesis using c s1 s2 by blast
qed

subsection \<open>A round that misses the quorum\<close>

lemma next_fault_tables [simp]:
  "round_metrics (snd (next_fault db)) = round_metrics db"
  "client_updates (snd (next_fault db)) = client_updates db"
  "trust_scores (snd (next_fault db)) = trust_scores db"
  "clients (snd (next_fault db)) = clients db"
  by (simp_all add: next_fault_def split: list.splits)

lemma write_round_other_tables [simp]:
  "round_metrics (fst (write_round db n j s c gl ga sa ca)) = round_metrics db"
  "client_updates (fst (write_round db n j s c gl ga sa ca)) = client_updates db"
  "trust_scores (fst (write_round db n j s c gl ga sa ca)) = trust_scores db"
  "clients (fst (write_round db n j s c gl ga sa ca)) = clients db"
proof -
  obtain f db0 where nf: "next_fault db = (f, db0)" by (cases "next_fault db")
  have t: "round_metrics db0 = round_metrics db" "client_updates db0 = client_updates db"
    "trust_scores db0 = trust_scores db" "clients db0 = clients db"
    using next_fault_tables [of db] nf by simp_all
  show "round_metrics (fst (write_round db n j s c gl ga sa ca)) = round_metrics db"
    by (cases f) (simp_all add: write_round_def nf t Let_def split: option.splits)
  show "client_updates (fst (write_round db n j s c gl ga sa ca)) = client_updates db"
    by (cases f) (simp_all add: write_round_def nf t Let_def split: option.splits)
  show "trust_scores (fst (write_round db n j s c gl ga sa ca)) = trust_scores db"
    by (cases f) (simp_all add: write_round_def nf t Let_def split: option.splits)
  show "clients (fst (write_round db n j s c gl ga sa ca)) = clients db"
    by (cases f) (simp_all add: write_round_def nf t Let_def split: option.splits)
qed

lemma distinct_key_unique:
  assumes "distinct (map f xs)" "x \<in> set xs" "y \<in> set xs" "f x = f y"
  shows "x = y"
proof -
  have "inj_on f (set xs)" using assms(1) by (simp add: distinct_map)
  then show ?thesis using assms(2-4) by (simp add: inj_on_def)
qed

lemma write_round_status:
  assumes c: "consistent_rounds db"
    and w: "write_round db n j s cnt gl ga sa ca = (db', Some i)"
  shows "(\<exists>r \<in> set (training_rounds db'). tr_round_number r = n) \<and>
         (\<forall>r \<in> set (training_rounds db'). tr_round_number r = n \<longrightarrow> tr_status r = Some s)"
proof -
  have ws: "consistent_rounds db' \<and>
         (\<exists>r \<in> set (training_rounds db'). tr_round_number r = n \<and> tr_id r = i \<and>
              tr_status r = Some s \<and> tr_num_clients r = Some cnt)"
    using write_round_success [OF c w] by blast
  then obtain e where e: "e \<in> set (training_rounds db')" "tr_round_number e = n" "tr_status e = Some s"
    by blast
  have d: "distinct (map tr_round_number (training_rounds db'))"
    using ws by (simp add: consistent_rounds_def)
  have u: "\<And>r. r \<in> set (training_rounds db') \<Longrightarrow> tr_round_number r = n \<Longrightarrow> r = e"
    using distinct_key_unique [OF d _ e(1)] e(2) by simp
  show ?thesis
  proof (intro conjI ballI impI)
    show "\<exists>r \<in> set (training_rounds db'). tr_round_number r = n" using e by blast
  next
    fix r assume "r \<in> set (training_rounds db')" "tr_round_number r = n"
    then have "r = e" by (rule u)
    then show "tr_status r = Some s" using e(3) by simp
  qed
qed


lemma start_round_None: "db_writer self = None \<Longrightarrow> start_round self env n = (None, None)"
  by (simp add: start_round_def)

lemma start_round_Some:
  "db_writer self = Some db \<Longrightarrow>
   start_round self env n =
     (Some (fst (write_round db n (job_id env) ''in_progress'' (min_clients self) None None
                   (Some (round_start env)) None)),
      snd (write_round db n (job_id env) ''in_progress'' (min_clients self) None None
             (Some (round_start env)) None))"
  by (simp add: start_round_def case_prod_beta)

lemma fail_round_fields [simp]:
  "global_model_weights (fail_round self n db1 rid crs) = global_model_weights self"
  "aggregator (fail_round self n db1 rid crs) = aggregator self"
  "num_rounds (fail_round self n db1 rid crs) = num_rounds self"
  "min_clients (fail_round self n db1 rid crs) = min_clients self"
  by (simp_all add: fail_round_def split: option.splits prod.splits)

lemma fail_round_db_None [simp]: "db_writer (fail_round self n None rid crs) = None"
  by (simp add: fail_round_def db_enabled_def)

lemma fail_round_db_Some:
  "\<exists>db'. db_writer (fail_round self n (Some db1) rid crs) = Some db' \<and>
     round_metrics db' = round_metrics db1 \<and> client_updates db' = client_updates db1 \<and>
     trust_scores db' = trust_scores db1"
  by (auto simp add: fail_round_def db_enabled_def split: option.splits)

lemma fail_round_db_enabled:
  "i \<noteq> 0 \<Longrightarrow> db_writer (fail_round self n (Some db1) (Some i) crs) =
     Some (fst (write_round db1 n None ''failed'' (int (length crs)) None None None None))"
  by (simp add: fail_round_def db_enabled_def)

lemma run_round_short:
  assumes "int (length (collect_results (client_tasks env))) < min_clients self"
  shows "run_round self env n =
     Inr (fail_round self n (fst (start_round self env n)) (snd (start_round self env n))
            (collect_results (client_tasks env)))"
  using assms by (simp add: run_round_def Let_def case_prod_beta)



lemma two_ok_collected: "length (collect_results (client_tasks two_ok_env)) = 2"
  by (simp add: two_ok_env_def ok_reply_def)







subsection \<open>The iteration count of a completed round\<close>

lemma weiszfeld_zero:
  "weiszfeld (GeometricMedianAggregator_init 100 (1 / 10 ^ 5)) [[0], [0]] = ([0], 1)"
proof -
  have m: "np_mean_axis0 [[0], [0 :: real]] = [0]"
    by (simp add: np_mean_axis0_def column_def)
  have w: "weiszfeld_weights [[0], [0]] [0] = [10 ^ 12, 10 ^ 12]"
    by (simp add: weiszfeld_weights_def l2_norm_def vec_sub_def)
  have s: "weiszfeld_step [[0], [0]] [0] = [0]"
    by (simp add: weiszfeld_step_def w)
  have n: "l2_norm (vec_sub [0] [0]) = 0"
    by (simp add: l2_norm_def vec_sub_def)
  show ?thesis
    by (simp add: weiszfeld_def GeometricMedianAggregator_init_def m
        weiszfeld_loop.simps [of _ _ _ 1] s n)
qed

lemma flatten_zero: "flatten_state_dict zero_update [''p''] = Inr [0]"
  by (simp add: flatten_state_dict_def zero_update_def dict_get_def np_concatenate_def)

lemma aggregate_zero:
  "aggregate (GeometricMedianAggregator_init 100 (1 / 10 ^ 5)) [zero_update, zero_update]
     = Inr (zero_update, GeometricMedianAggregator_init 100 (1 / 10 ^ 5))"
proof -
  have k: "dict_keys zero_update = [''p'']" by (simp add: dict_keys_def zero_update_def)
  have f: "flatten_all [zero_update, zero_update] [''p''] = Inr [[0], [0]]"
    by (simp add: flatten_zero)
  have st: "np_stack [[0], [0 :: real]] = Inr [[0], [0]]" by (simp add: np_stack_def)
  have u: "unflatten_to_state_dict [0] [''p''] [[1]] [1] = Inr zero_update"
    by (simp add: unflatten_to_state_dict_def reshape_def zero_update_def)
  have sh: "map (\<lambda>kv. shape (snd kv)) zero_update = [[1]]"
    "map (\<lambda>kv. numel (snd kv)) zero_update = [1]"
    by (simp_all add: zero_update_def numel_def)
  show ?thesis
    by (simp add: aggregate_def Let_def k flatten_zero st weiszfeld_zero [simplified]
        u [simplified] sh [simplified])
qed

lemma distances_zero:
  "compute_distances [zero_update, zero_update] zero_update = Inr [0, 0]"
proof -
  have k: "dict_keys zero_update = [''p'']" by (simp add: dict_keys_def zero_update_def)
  show ?thesis
    by (simp add: compute_distances_def Let_def k flatten_zero np_sub_def vec_sub_def l2_norm_def)
qed

lemma collect_zero:
  "collect_results (client_tasks two_zero_env) =
     [\<lparr>cr_client_name = ''site-1'', cr_body_weights = zero_update, cr_head_weights = [],
       cr_local_loss = 0, cr_local_auc = 0, cr_num_samples = 0,
       cr_encryption_status = ''plaintext''\<rparr>,
      \<lparr>cr_client_name = ''site-2'', cr_body_weights = zero_update, cr_head_weights = [],
       cr_local_loss = 0, cr_local_auc = 0, cr_num_samples = 0,
       cr_encryption_status = ''plaintext''\<rparr>]"
  by (simp add: two_zero_env_def zero_reply_def)

lemma aggregate_head_empty_heads: "aggregate_head [[], []] = Inr []"
  by (simp add: aggregate_head_def)

lemma start_zero:
  "start_round zero_ctl two_zero_env 1 =
     (Some (empty_database\<lparr>training_rounds_seq := 2,
                 training_rounds := [\<lparr>tr_id = 1, tr_round_number = 1, tr_job_id = None,
                    tr_status = Some ''in_progress'', tr_num_clients = Some 2,
                    tr_global_loss = None, tr_global_auc = None, tr_started_at = Some 0,
                    tr_completed_at = None\<rparr>]\<rparr>), Some 1)"
  by (simp add: start_round_def zero_ctl_def GeomMedianController_init_def two_zero_env_def
      write_round_def empty_database_def next_fault_def Let_def round_values_def
      empty_round_row_def)

lemma persist_zero:
  "map rm_weiszfeld_iterations (round_metrics (projr
     (persist_round (zero_ctl\<lparr>global_model_weights := Some zero_update\<rparr>) two_zero_env 1
        (empty_database\<lparr>training_rounds_seq := 2,
                 training_rounds := [\<lparr>tr_id = 1, tr_round_number = 1, tr_job_id = None,
                    tr_status = Some ''in_progress'', tr_num_clients = Some 2,
                    tr_global_loss = None, tr_global_auc = None, tr_started_at = Some 0,
                    tr_completed_at = None\<rparr>]\<rparr>) 1
        (collect_results (client_tasks two_zero_env)) [0, 0] 0 0))) = [0] \<and>
   \<not> isl (persist_round (zero_ctl\<lparr>global_model_weights := Some zero_update\<rparr>) two_zero_env 1
        (empty_database\<lparr>training_rounds_seq := 2,
                 training_rounds := [\<lparr>tr_id = 1, tr_round_number = 1, tr_job_id = None,
                    tr_status = Some ''in_progress'', tr_num_clients = Some 2,
                    tr_global_loss = None, tr_global_auc = None, tr_started_at = Some 0,
                    tr_completed_at = None\<rparr>]\<rparr>) 1
        (collect_results (client_tasks two_zero_env)) [0, 0] 0 0)"
  by (simp add: persist_round_def collect_zero zero_ctl_def GeomMedianController_init_def
      GeometricMedianAggregator_init_def getattr_last_iterations_def
      write_round_def write_round_metric_def write_client_update_def write_trust_score_def
      get_client_id_by_name_def empty_database_def next_fault_def Let_def round_values_def
      truediv_def two_zero_env_def)

lemma complete_round_enabled:
  assumes "aggregate (aggregator self) (map cr_body_weights crs) = Inr (ab, agg)"
    and "compute_distances (map cr_body_weights crs) ab = Inr ds"
    and "aggregate_head (map cr_head_weights crs) = Inr ah"
    and "crs \<noteq> []"
    and "i \<noteq> 0"
  shows "complete_round self env n (Some db) (Some i) crs =
     and_then (persist_round (self\<lparr>aggregator := agg,
                   global_model_weights := Some (dict_merge ab ah)\<rparr>) env n db i crs ds
                 (sum_list (map cr_local_loss crs) / real (length crs))
                 (sum_list (map cr_local_auc crs) / real (length crs)))
       (\<lambda>db2. Inr (self\<lparr>aggregator := agg,
                   global_model_weights := Some (dict_merge ab ah), db_writer := Some db2\<rparr>))"
  using assms by (simp add: complete_round_def Let_def truediv_def db_enabled_def)

text \<open>
  C4 against the code. In a round with two clients that both send \<open>{p: [0.0]}\<close>,
  Weiszfeld performs one iteration; after the round the aggregator still has no
  \<open>_last_iterations\<close> attribute, and the metric row written for the round records
  \<open>weiszfeld_iterations = 0\<close>, the default of the controller's \<open>getattr\<close>.
\<close>

theorem weiszfeld_iterations_not_recorded:
  "snd (weiszfeld (aggregator zero_ctl) [[0], [0]]) = 1 \<and>
   \<not> isl (run_round zero_ctl two_zero_env 1) \<and>
   last_iterations (aggregator (projr (run_round zero_ctl two_zero_env 1))) = None \<and>
   map rm_weiszfeld_iterations
     (round_metrics (the (db_writer (projr (run_round zero_ctl two_zero_env 1))))) = [0]"
proof -
  let ?db1 = "empty_database\<lparr>training_rounds_seq := 2,
                 training_rounds := [\<lparr>tr_id = 1, tr_round_number = 1, tr_job_id = None,
                    tr_status = Some ''in_progress'', tr_num_clients = Some 2,
                    tr_global_loss = None, tr_global_auc = None, tr_started_at = Some 0,
                    tr_completed_at = None\<rparr>]\<rparr>"
  let ?crs = "collect_results (client_tasks two_zero_env)"
  let ?agg = "GeometricMedianAggregator_init 100 (1 / 10 ^ 5)"
  let ?self' = "zero_ctl\<lparr>global_model_weights := Some zero_update\<rparr>"
  let ?p = "persist_round ?self' two_zero_env 1 ?db1 1 ?crs [0, 0] 0 0"
  have ag: "aggregator zero_ctl = ?agg" "min_clients zero_ctl = 2"
    by (simp_all add: zero_ctl_def GeomMedianController_init_def)
  have bodies: "map cr_body_weights ?crs = [zero_update, zero_update]"
    and heads: "map cr_head_weights ?crs = [[], []]"
    and crs: "?crs \<noteq> []" "length ?crs = 2"
    and sums: "sum_list (map cr_local_loss ?crs) = 0" "sum_list (map cr_local_auc ?crs) = 0"
    by (simp_all add: collect_zero)
  have same: "zero_ctl\<lparr>aggregator := ?agg, global_model_weights := Some (dict_merge zero_update [])\<rparr>
      = ?self'"
    by (simp add: zero_ctl_def GeomMedianController_init_def dict_merge_def)
  have p1: "aggregate (aggregator zero_ctl) (map cr_body_weights ?crs) = Inr (zero_update, ?agg)"
    by (simp only: ag bodies aggregate_zero)
  have p2: "compute_distances (map cr_body_weights ?crs) zero_update = Inr [0, 0]"
    by (simp only: bodies distances_zero)
  have p3: "aggregate_head (map cr_head_weights ?crs) = Inr []"
    by (simp only: heads aggregate_head_empty_heads)
  have p5: "(1::int) \<noteq> 0" by simp
  have cr0: "complete_round zero_ctl two_zero_env 1 (Some ?db1) (Some 1) ?crs =
     and_then (persist_round (zero_ctl\<lparr>aggregator := ?agg,
                   global_model_weights := Some (dict_merge zero_update [])\<rparr>)
                 two_zero_env 1 ?db1 1 ?crs [0, 0]
                 (sum_list (map cr_local_loss ?crs) / real (length ?crs))
                 (sum_list (map cr_local_auc ?crs) / real (length ?crs)))
       (\<lambda>db2. Inr (zero_ctl\<lparr>aggregator := ?agg,
                   global_model_weights := Some (dict_merge zero_update []),
                   db_writer := Some db2\<rparr>))"
    by (rule complete_round_enabled [OF p1 p2 p3 crs(1) p5])
  have cr: "complete_round zero_ctl two_zero_env 1 (Some ?db1) (Some 1) ?crs =
      and_then ?p (\<lambda>db2. Inr (?self'\<lparr>db_writer := Some db2\<rparr>))"
    unfolding cr0 same sums by simp
  have rr: "run_round zero_ctl two_zero_env 1 =
      and_then ?p (\<lambda>db2. Inr (?self'\<lparr>db_writer := Some db2\<rparr>))"
    by (simp add: run_round_def start_zero ag crs cr)
  obtain db2 where p: "?p = Inr db2" using persist_zero by (cases ?p) simp_all
  have m: "map rm_weiszfeld_iterations (round_metrics db2) = [0]"
    using persist_zero p by simp
  have r: "run_round zero_ctl two_zero_env 1 = Inr (?self'\<lparr>db_writer := Some db2\<rparr>)"
    by (simp add: rr p)
  have w: "snd (weiszfeld (aggregator zero_ctl) [[0], [0]]) = 1"
    by (simp only: ag weiszfeld_zero snd_conv)
  have l: "last_iterations (aggregator (?self'\<lparr>db_writer := Some db2\<rparr>)) = None"
    by (simp add: zero_ctl_def GeomMedianController_init_def GeometricMedianAggregator_init_def)
  show ?thesis using w m l by (simp add: r)
qed

subsection \<open>The head step of a round\<close>

lemma collect_encrypted:
  "map cr_body_weights (collect_results (client_tasks two_encrypted_env))
     = [zero_update, zero_update]"
  "map cr_head_weights (collect_results (client_tasks two_encrypted_env))
     = [[(''classifier.bias'', Cipher ''ct-1'')], [(''classifier.bias'', Cipher ''ct-2'')]]"
  "length (collect_results (client_tasks two_encrypted_env)) = 2"
  by (simp_all add: two_encrypted_env_def encrypted_reply_def)

lemma encrypted_heads_raise:
  "aggregate_head [[(''classifier.bias'', Cipher ''ct-1'')], [(''classifier.bias'', Cipher ''ct-2'')]]
     = Inl TypeError"
  by (simp add: aggregate_head_def dict_keys_def List.map_filter_simps torch_stack_def)

text \<open>
  C2 against the code. In a round where two clients reply \<open>OK\<close> (the quorum of
  \<open>min_clients = 2\<close> is met) and each head entry is ciphertext bytes, the head step
  decrypts nothing and sets no \<open>mean_head\<close>: \<open>torch.stack\<close> raises \<open>TypeError\<close> on
  the bytes, and the exception leaves the round.
\<close>

theorem encrypted_heads_round_raises:
  "length (collect_results (client_tasks two_encrypted_env)) = 2 \<and>
   min_clients zero_ctl = 2 \<and>
   aggregate_head (map cr_head_weights (collect_results (client_tasks two_encrypted_env)))
     = Inl TypeError \<and>
   run_round zero_ctl two_encrypted_env 1 = Inl TypeError"
proof -
  let ?crs = "collect_results (client_tasks two_encrypted_env)"
  let ?agg = "GeometricMedianAggregator_init 100 (1 / 10 ^ 5)"
  have ag: "aggregator zero_ctl = ?agg" and mc: "min_clients zero_ctl = 2"
    by (simp_all add: zero_ctl_def GeomMedianController_init_def)
  have p1: "aggregate (aggregator zero_ctl) (map cr_body_weights ?crs) = Inr (zero_update, ?agg)"
    by (simp only: ag collect_encrypted aggregate_zero)
  have p2: "compute_distances (map cr_body_weights ?crs) zero_update = Inr [0, 0]"
    by (simp only: collect_encrypted distances_zero)
  have p3: "aggregate_head (map cr_head_weights ?crs) = Inl TypeError"
    by (simp only: collect_encrypted encrypted_heads_raise)
  have cr: "complete_round zero_ctl two_encrypted_env 1 db1 rid ?crs = Inl TypeError" for db1 rid
    by (simp add: complete_round_def Let_def p1 p2 p3)
  have "run_round zero_ctl two_encrypted_env 1 = Inl TypeError"
    by (simp add: run_round_def Let_def case_prod_beta collect_encrypted(3) mc cr)
  then show ?thesis using p3 mc collect_encrypted(3) by simp
qed

subsection \<open>The geometric median of three points\<close>

lemma norms_diag:
  "l2_norm (vec_sub [0, 0] [t, t]) = sqrt (2 * t\<^sup>2)"
  "l2_norm (vec_sub [1, 0] [t, t]) = sqrt ((1 - t)\<^sup>2 + t\<^sup>2)"
  "l2_norm (vec_sub [0, 1] [t, t]) = sqrt ((1 - t)\<^sup>2 + t\<^sup>2)"
  by (simp_all add: l2_norm_def vec_sub_def power2_eq_square add.commute)

lemma norm_shift: "l2_norm (vec_sub [u, u] [t, t]) = sqrt (2 * (u - t)\<^sup>2)"
  by (simp add: l2_norm_def vec_sub_def power2_eq_square)

lemma dist_lower:
  assumes "1 / 5 \<le> t" "t \<le> 1 / 3"
  shows "1 / 5 \<le> sqrt (2 * t\<^sup>2)" "1 / 5 \<le> sqrt ((1 - t)\<^sup>2 + t\<^sup>2)"
proof -
  have st: "sqrt (t\<^sup>2) = t" using assms by simp
  have "t\<^sup>2 \<le> 2 * t\<^sup>2" by simp
  then have "sqrt (t\<^sup>2) \<le> sqrt (2 * t\<^sup>2)" by (rule real_sqrt_le_mono)
  then show "1 / 5 \<le> sqrt (2 * t\<^sup>2)" using assms(1) unfolding st by linarith
  have "t\<^sup>2 \<le> (1 - t)\<^sup>2 + t\<^sup>2" by simp
  then have "sqrt (t\<^sup>2) \<le> sqrt ((1 - t)\<^sup>2 + t\<^sup>2)" by (rule real_sqrt_le_mono)
  then show "1 / 5 \<le> sqrt ((1 - t)\<^sup>2 + t\<^sup>2)" using assms(1) unfolding st by linarith
qed

lemma step_diag:
  assumes "1 / 5 \<le> t" "t \<le> 1 / 3"
  shows "weiszfeld_step three_points [t, t] = [diag_next t, diag_next t]"
proof -
  define a where "a = sqrt (2 * t\<^sup>2)"
  define b where "b = sqrt ((1 - t)\<^sup>2 + t\<^sup>2)"
  have a: "1 / 5 \<le> a" and b: "1 / 5 \<le> b"
    using dist_lower [OF assms] by (simp_all add: a_def b_def)
  have big: "(1 / 10 ^ 12 :: real) < 1 / 5" by simp
  have ga: "a > 1 / 10 ^ 12" and gb: "b > 1 / 10 ^ 12"
    using a b big by linarith+
  have w: "weiszfeld_weights three_points [t, t] = [1 / a, 1 / b, 1 / b]"
    using ga gb
    by (simp add: weiszfeld_weights_def three_points_def norms_diag a_def [symmetric]
        b_def [symmetric] Let_def del: power_numeral)
  have pos: "0 < a" "0 < b" using a b by linarith+
  have e: "1 / b / (1 / a + (1 / b + 1 / b)) = a / (b + 2 * a)"
    using pos by (simp add: field_simps)
  have "weiszfeld_step three_points [t, t]
      = [1 / b / (1 / a + (1 / b + 1 / b)), 1 / b / (1 / a + (1 / b + 1 / b))]"
    unfolding weiszfeld_step_def w Let_def by (simp add: three_points_def)
  then show ?thesis
    by (simp only: e) (simp add: diag_next_def a_def b_def)
qed

text \<open>The gap function decreases along the diagonal.\<close>

lemma diag_gap_antimono:
  assumes "0 \<le> s" "s \<le> t" "0 \<le> W" "W \<le> 1 / 3"
  shows "diag_gap W t \<le> diag_gap W s"
proof -
  have id: "diag_gap W s - diag_gap W t
      = (t - s) * (2 * W\<^sup>2 + 2 * (s + t) * ((1 - 3 * W) * (1 - W)))"
    by (simp add: diag_gap_def power2_eq_square algebra_simps)
  have "0 \<le> (1 - 3 * W) * (1 - W)" using assms by simp
  then have "0 \<le> 2 * (s + t) * ((1 - 3 * W) * (1 - W))" using assms by simp
  then have "0 \<le> 2 * W\<^sup>2 + 2 * (s + t) * ((1 - 3 * W) * (1 - W))" by simp
  then have "0 \<le> (t - s) * (2 * W\<^sup>2 + 2 * (s + t) * ((1 - 3 * W) * (1 - W)))"
    using assms by simp
  then show ?thesis using id by linarith
qed

lemma diag_next_le:
  assumes t: "0 < t" and W: "0 \<le> W" "W \<le> 1 / 3" and g: "0 \<le> diag_gap W t"
  shows "diag_next t \<le> W"
proof -
  define a where "a = sqrt (2 * t\<^sup>2)"
  define b where "b = sqrt ((1 - t)\<^sup>2 + t\<^sup>2)"
  have a0: "0 < a" using t by (simp add: a_def)
  have b0: "0 \<le> b" by (simp add: b_def)
  have a2: "a\<^sup>2 = 2 * t\<^sup>2" by (simp add: a_def)
  have b2: "b\<^sup>2 = (1 - t)\<^sup>2 + t\<^sup>2" by (simp add: b_def)
  have "((1 - 2 * W) * a)\<^sup>2 \<le> (W * b)\<^sup>2"
    using g by (simp add: power_mult_distrib a2 b2 diag_gap_def)
  moreover have "0 \<le> W * b" using W b0 by simp
  ultimately have "(1 - 2 * W) * a \<le> W * b" by (rule power2_le_imp_le)
  then have "a \<le> W * (b + 2 * a)" by (simp add: algebra_simps)
  moreover have "0 < b + 2 * a" using a0 b0 by linarith
  ultimately have "a / (b + 2 * a) \<le> W" by (simp add: pos_divide_le_eq)
  then show ?thesis by (simp add: diag_next_def a_def b_def)
qed

lemma diag_next_ge:
  assumes t: "0 < t" and W: "0 \<le> W" "W \<le> 1 / 3" and g: "diag_gap W t \<le> 0"
  shows "W \<le> diag_next t"
proof -
  define a where "a = sqrt (2 * t\<^sup>2)"
  define b where "b = sqrt ((1 - t)\<^sup>2 + t\<^sup>2)"
  have a0: "0 < a" using t by (simp add: a_def)
  have b0: "0 \<le> b" by (simp add: b_def)
  have a2: "a\<^sup>2 = 2 * t\<^sup>2" by (simp add: a_def)
  have b2: "b\<^sup>2 = (1 - t)\<^sup>2 + t\<^sup>2" by (simp add: b_def)
  have "(W * b)\<^sup>2 \<le> ((1 - 2 * W) * a)\<^sup>2"
    using g by (simp add: power_mult_distrib a2 b2 diag_gap_def)
  moreover have "0 \<le> (1 - 2 * W) * a" using W a0 by simp
  ultimately have "W * b \<le> (1 - 2 * W) * a" by (rule power2_le_imp_le)
  then have "W * (b + 2 * a) \<le> a" by (simp add: algebra_simps)
  moreover have "0 < b + 2 * a" using a0 b0 by linarith
  ultimately have "W \<le> a / (b + 2 * a)" by (simp add: pos_le_divide_eq)
  then show ?thesis by (simp add: diag_next_def a_def b_def)
qed

lemma diag_next_lower:
  assumes "21 / 100 \<le> t"
  shows "21 / 100 \<le> diag_next t"
proof -
  have "diag_gap (21 / 100) t \<le> diag_gap (21 / 100) (21 / 100)"
    using assms by (intro diag_gap_antimono) simp_all
  also have "\<dots> \<le> 0" by (simp add: diag_gap_def power2_eq_square)
  finally show ?thesis using assms by (intro diag_next_ge) simp_all
qed

lemma diag_next_upper:
  assumes "0 < t" "t \<le> V" "0 \<le> W" "W \<le> 1 / 3" "0 \<le> diag_gap W V"
  shows "diag_next t \<le> W"
proof -
  have "diag_gap W V \<le> diag_gap W t"
    using assms by (intro diag_gap_antimono) simp_all
  then have "0 \<le> diag_gap W t" using assms(5) by linarith
  then show ?thesis using assms by (intro diag_next_le) simp_all
qed

lemma loop_unfold_diag:
  assumes "1 / 5 \<le> t" "t \<le> 1 / 3" "i \<le> m"
  shows "weiszfeld_loop three_points e m i [t, t] =
     (if sqrt (2 * (diag_next t - t)\<^sup>2) < e then ([diag_next t, diag_next t], i)
      else weiszfeld_loop three_points e m (i + 1) [diag_next t, diag_next t])"
  using assms(3)
  by (subst weiszfeld_loop.simps) (simp add: step_diag [OF assms(1,2)] norm_shift Let_def)

lemma loop_in_band:
  assumes "21 / 100 \<le> t" "t \<le> 22 / 100"
  shows "in_band (weiszfeld_loop three_points e 100 i [t, t])"
  using assms
proof (induction "nat (101 - i)" arbitrary: i t)
  case 0
  then have "i > 100" by simp
  then have "weiszfeld_loop three_points e 100 i [t, t] = ([t, t], 100)"
    by (subst weiszfeld_loop.simps) simp
  then show ?case using "0.prems" by (simp add: in_band_def)
next
  case (Suc n)
  then have i: "i \<le> 100" by simp
  have lo: "21 / 100 \<le> diag_next t" using Suc.prems(1) by (rule diag_next_lower)
  have hi: "diag_next t \<le> 22 / 100"
    using Suc.prems
    by (intro diag_next_upper [of t "22 / 100"]) (simp_all add: diag_gap_def power2_eq_square)
  have u: "weiszfeld_loop three_points e 100 i [t, t] =
     (if sqrt (2 * (diag_next t - t)\<^sup>2) < e then ([diag_next t, diag_next t], i)
      else weiszfeld_loop three_points e 100 (i + 1) [diag_next t, diag_next t])"
    using Suc.prems i by (intro loop_unfold_diag) simp_all
  have n: "n = nat (101 - (i + 1))" using Suc.hyps(2) by simp
  have "in_band (weiszfeld_loop three_points e 100 (i + 1) [diag_next t, diag_next t])"
    by (rule Suc.hyps(1) [OF n lo hi])
  moreover have "in_band ([diag_next t, diag_next t], i)"
    using lo hi by (simp add: in_band_def)
  ultimately show ?case by (simp add: u)
qed

lemma stage:
  assumes nxt: "\<And>i t. 21 / 100 \<le> t \<Longrightarrow> t \<le> V' \<Longrightarrow> i + n \<le> 101 \<Longrightarrow>
             in_band (weiszfeld_loop three_points (1 / 100000) 100 i [t, t])"
    and g: "0 \<le> diag_gap W V"
    and c: "W + 1 / 100000 \<le> V'" "V \<le> 1 / 3" "0 \<le> W" "W \<le> 1 / 3" "0 \<le> n"
    and t: "21 / 100 \<le> t" "t \<le> V"
    and i: "i + (n + 1) \<le> 101"
  shows "in_band (weiszfeld_loop three_points (1 / 100000) 100 i [t, t])"
proof (cases "t \<le> V'")
  case True
  then show ?thesis using t(1) i by (intro nxt) simp_all
next
  case False
  then have far: "V' < t" by simp
  have i100: "i \<le> 100" using i c(5) by linarith
  have lo: "21 / 100 \<le> diag_next t" using t(1) by (rule diag_next_lower)
  have hi: "diag_next t \<le> W"
    using t c g by (intro diag_next_upper [of t V]) simp_all
  have d: "1 / 100000 < t - diag_next t" using hi far c(1) by linarith
  have "(1 / 100000)\<^sup>2 \<le> (t - diag_next t)\<^sup>2"
    using d by (intro power_mono) simp_all
  also have "\<dots> = (diag_next t - t)\<^sup>2" by (simp add: power2_commute)
  also have "\<dots> \<le> 2 * (diag_next t - t)\<^sup>2" by simp
  finally have "sqrt ((1 / 100000)\<^sup>2) \<le> sqrt (2 * (diag_next t - t)\<^sup>2)"
    by (rule real_sqrt_le_mono)
  then have ns: "\<not> sqrt (2 * (diag_next t - t)\<^sup>2) < 1 / 100000" by simp
  have u: "weiszfeld_loop three_points (1 / 100000) 100 i [t, t] =
      weiszfeld_loop three_points (1 / 100000) 100 (i + 1) [diag_next t, diag_next t]"
    using loop_unfold_diag [of t i 100 "1 / 100000"] t c(2) i100 ns by simp
  have "diag_next t \<le> V'" using hi c(1) by simp
  then have "in_band (weiszfeld_loop three_points (1 / 100000) 100 (i + 1) [diag_next t, diag_next t])"
    using lo i by (intro nxt) simp_all
  then show ?thesis by (simp only: u)
qed

lemma weiszfeld_three_points:
  "in_band (weiszfeld (GeometricMedianAggregator_init 100 (1 / 100000)) three_points)"
proof -
  let ?Q = "\<lambda>i t. in_band (weiszfeld_loop three_points (1 / 100000) 100 i [t, t])"
  have s6: "?Q i t" if "21 / 100 \<le> t" "t \<le> 2199 / 10000" "i + 0 \<le> 101" for i t
    using that by (intro loop_in_band) simp_all
  have s5: "?Q i t" if "21 / 100 \<le> t" "t \<le> 2236 / 10000" "i + 1 \<le> 101" for i t
    using that
    by (intro stage [of "2199 / 10000" 0 "2198 / 10000" "2236 / 10000" t i] s6)
      (simp_all add: diag_gap_def power2_eq_square)
  have s4: "?Q i t" if "21 / 100 \<le> t" "t \<le> 2293 / 10000" "i + 2 \<le> 101" for i t
    using that
    by (intro stage [of "2236 / 10000" 1 "2235 / 10000" "2293 / 10000" t i] s5)
      (simp_all add: diag_gap_def power2_eq_square)
  have s3: "?Q i t" if "21 / 100 \<le> t" "t \<le> 2383 / 10000" "i + 3 \<le> 101" for i t
    using that
    by (intro stage [of "2293 / 10000" 2 "2292 / 10000" "2383 / 10000" t i] s4)
      (simp_all add: diag_gap_def power2_eq_square)
  have s2: "?Q i t" if "21 / 100 \<le> t" "t \<le> 2532 / 10000" "i + 4 \<le> 101" for i t
    using that
    by (intro stage [of "2383 / 10000" 3 "2382 / 10000" "2532 / 10000" t i] s3)
      (simp_all add: diag_gap_def power2_eq_square)
  have s1: "?Q i t" if "21 / 100 \<le> t" "t \<le> 2796 / 10000" "i + 5 \<le> 101" for i t
    using that
    by (intro stage [of "2532 / 10000" 4 "2531 / 10000" "2796 / 10000" t i] s2)
      (simp_all add: diag_gap_def power2_eq_square)
  have s0: "?Q i t" if "21 / 100 \<le> t" "t \<le> 1 / 3" "i + 6 \<le> 101" for i t
    using that
    by (intro stage [of "2796 / 10000" 5 "2795 / 10000" "1 / 3" t i] s1)
      (simp_all add: diag_gap_def power2_eq_square)
  have m: "np_mean_axis0 three_points = [1 / 3, 1 / 3]"
    by (simp add: np_mean_axis0_def three_points_def column_def)
  have "?Q 1 (1 / 3)" by (rule s0) simp_all
  then show ?thesis
    by (simp add: weiszfeld_def GeometricMedianAggregator_init_def m)
qed

lemma aggregate_three_updates:
  "\<exists>t. aggregate (GeometricMedianAggregator_init 100 (1 / 100000)) three_updates
          = Inr ([(''p'', \<lparr>shape = [2], data = [t, t]\<rparr>)],
                 GeometricMedianAggregator_init 100 (1 / 100000)) \<and>
       21 / 100 \<le> t \<and> t \<le> 22 / 100"
proof -
  let ?agg = "GeometricMedianAggregator_init 100 (1 / 100000)"
  obtain y n where w: "weiszfeld ?agg three_points = (y, n)"
    by (cases "weiszfeld ?agg three_points")
  obtain t where t: "y = [t, t]" "21 / 100 \<le> t" "t \<le> 22 / 100"
    using weiszfeld_three_points w by (auto simp add: in_band_def)
  have f: "flatten_all three_updates [''p''] = Inr three_points"
    by (simp add: three_updates_def three_points_def flatten_state_dict_def dict_get_def
        np_concatenate_def)
  have st: "np_stack three_points = Inr three_points"
    by (simp add: np_stack_def three_points_def)
  have u: "unflatten_to_state_dict [t, t] [''p''] [[2]] [2]
             = Inr [(''p'', \<lparr>shape = [2], data = [t, t]\<rparr>)]"
    by (simp add: unflatten_to_state_dict_def reshape_def)
  have hd3: "hd three_updates = [(''p'', \<lparr>shape = [2], data = [0, 0]\<rparr>)]"
    "three_updates \<noteq> []" "length three_updates = 3"
    by (simp_all add: three_updates_def)
  have "aggregate ?agg three_updates
      = Inr ([(''p'', \<lparr>shape = [2], data = [t, t]\<rparr>)], ?agg)"
    by (simp add: aggregate_def Let_def hd3 dict_keys_def numel_def f st w t(1) u)
  then show ?thesis using t(2,3) by blast
qed

text \<open>
  C1, as it stands, fails: for the three updates \<open>{p: [0,0]}\<close>, \<open>{p: [1,0]}\<close>,
  \<open>{p: [0,1]}\<close> and the default parameters, \<open>aggregate\<close> returns, and the value at
  \<open>p\<close> is not within \<open>0.01\<close> of \<open>[0.3113, 0.3113]\<close>.
\<close>

theorem geometric_median_three_points_not_03113:
  "\<not> isl (aggregate (GeometricMedianAggregator_init 100 (1 / 100000)) three_updates) \<and>
   \<not> (\<bar>data (the (map_of (fst (projr
          (aggregate (GeometricMedianAggregator_init 100 (1 / 100000)) three_updates))) ''p'')) ! 0
        - 3113 / 10000\<bar> \<le> 1 / 100 \<and>
      \<bar>data (the (map_of (fst (projr
          (aggregate (GeometricMedianAggregator_init 100 (1 / 100000)) three_updates))) ''p'')) ! 1
        - 3113 / 10000\<bar> \<le> 1 / 100)"
proof -
  obtain t where t: "aggregate (GeometricMedianAggregator_init 100 (1 / 100000)) three_updates
          = Inr ([(''p'', \<lparr>shape = [2], data = [t, t]\<rparr>)],
                 GeometricMedianAggregator_init 100 (1 / 100000))"
    "21 / 100 \<le> t" "t \<le> 22 / 100"
    using aggregate_three_updates by blast
  have "\<not> \<bar>t - 3113 / 10000\<bar> \<le> 1 / 100" using t(3) by linarith
  then show ?thesis by (simp only: t(1) sum.sel sum.disc fst_conv) simp
qed

text \<open>
  C1, amended. For the three updates and the default parameters (\<open>max_iter = 100\<close>,
  \<open>eps = 1e-5\<close>), \<open>aggregate\<close> returns a map with the one key \<open>p\<close> whose value, of
  shape \<open>(2)\<close>, is within \<open>0.01\<close> of \<open>[0.2113, 0.2113]\<close>, the geometric median
  \<open>(3 - sqrt 3) / 6\<close> of the three points.
\<close>

theorem geometric_median_three_points:
  "\<exists>x y self'. aggregate (GeometricMedianAggregator_init 100 (1 / 100000)) three_updates
       = Inr ([(''p'', \<lparr>shape = [2], data = [x, y]\<rparr>)], self') \<and>
     \<bar>x - 2113 / 10000\<bar> \<le> 1 / 100 \<and> \<bar>y - 2113 / 10000\<bar> \<le> 1 / 100"
proof -
  obtain t where t: "aggregate (GeometricMedianAggregator_init 100 (1 / 100000)) three_updates
          = Inr ([(''p'', \<lparr>shape = [2], data = [t, t]\<rparr>)],
                 GeometricMedianAggregator_init 100 (1 / 100000))"
    "21 / 100 \<le> t" "t \<le> 22 / 100"
    using aggregate_three_updates by blast
  have "\<bar>t - 2113 / 10000\<bar> \<le> 1 / 100" using t(2,3) by linarith
  then show ?thesis using t(1) by blast
qed

end
